theory Spec2Isabelle
  imports Main "HOL-Library.Word"
begin

text \<open>
  A model of \<^verbatim>\<open>change_tempo_and_pitch_via_sample_rate.py\<close>: the script copies a WAV
  file sample by sample under a new sample rate, with the \<^verbatim>\<open>wave\<close> module of the Python
  standard library reading the input and writing the output. The model has the script's
  three functions (\<^verbatim>\<open>get_path_name\<close>, \<^verbatim>\<open>change_sample_rate\<close>, \<^verbatim>\<open>main\<close>), the
  part of \<^verbatim>\<open>wave\<close> that they call, down to the bytes of the files, and a file system
  that maps paths to file contents. Exceptions are values; the output of \<^verbatim>\<open>print\<close> and
  the exit status are results.
\<close>

section \<open>Python string primitives used by the script\<close>

text \<open>
  \<^verbatim>\<open>str.rfind(c)\<close> for a one-character needle: the highest index at which
  \<open>c\<close> occurs, or \<open>-1\<close> when it does not occur.
\<close>

fun rfind :: "string \<Rightarrow> char \<Rightarrow> int" where
  "rfind [] c = - 1"
| "rfind (x # xs) c =
     (let r = rfind xs c in
      if 0 \<le> r then r + 1 else if x = c then 0 else - 1)"

text \<open>
  Python's slice \<^verbatim>\<open>s[a:b]\<close> with step 1: a negative index counts from the
  end, and every index is then clipped to \<open>0 .. len s\<close>; the slice is empty when
  the start is not before the stop.
\<close>

definition clip_index :: "nat \<Rightarrow> int \<Rightarrow> nat" where
  "clip_index n i = (if i < 0 then nat (max 0 (i + int n)) else min n (nat i))"

definition py_slice :: "'a list \<Rightarrow> int \<Rightarrow> int \<Rightarrow> 'a list" where
  "py_slice s a b =
     (let lo = clip_index (length s) a; hi = clip_index (length s) b
      in take (hi - lo) (drop lo s))"

definition slash :: char where "slash = CHR ''/''"
definition backslash :: char where "backslash = CHR 0x5C"

section \<open>get_path_name\<close>

text \<open>
  The pair \<open>(path, name)\<close> of the source; \<open>None\<close> is Python's \<^verbatim>\<open>None\<close>.
\<close>

definition get_path_name :: "string \<Rightarrow> string option \<times> string" where
  "get_path_name path_name_wav =
     (let end_of_path = max (rfind path_name_wav slash) (rfind path_name_wav backslash);
          name = py_slice path_name_wav (end_of_path + 1) (- 4);
          path = (if end_of_path > - 1
                  then Some (py_slice path_name_wav 0 (end_of_path + 1))
                  else None)
      in (path, name))"

text \<open>Vocabulary for the statements: the two separator characters.\<close>

definition is_sep :: "char \<Rightarrow> bool" where
  "is_sep c \<longleftrightarrow> c = slash \<or> c = backslash"

definition last_sep :: "string \<Rightarrow> int" where
  "last_sep s = max (rfind s slash) (rfind s backslash)"

section \<open>Python values: integers printed, exceptions, the file system\<close>

text \<open>
  \<^verbatim>\<open>str(n)\<close> of an integer, as an f-string prints it.
\<close>

definition digit_char :: "nat \<Rightarrow> char" where
  "digit_char d = ''0123456789'' ! d"

fun str_nat :: "nat \<Rightarrow> string" where
  "str_nat n = (if n < 10 then [digit_char n]
                else str_nat (n div 10) @ [digit_char (n mod 10)])"

declare str_nat.simps [simp del]

definition str_int :: "int \<Rightarrow> string" where
  "str_int i = (if i < 0 then CHR ''-'' # str_nat (nat (- i)) else str_nat (nat i))"

text \<open>
  Strings are sequences of code points below 256. \<^verbatim>\<open>repr(s)\<close> of such a string: in
  double quotes when it holds a single quote and no double quote, in single quotes
  otherwise; the quote character and the backslash are escaped with a backslash, tab,
  newline and carriage return are written \<^verbatim>\<open>\t\<close>, \<^verbatim>\<open>\n\<close>, \<^verbatim>\<open>\r\<close>, and every other
  character that is not printable is written \<^verbatim>\<open>\xNN\<close>.
\<close>

definition printable :: "char \<Rightarrow> bool" where
  "printable c \<longleftrightarrow> (32 \<le> (of_char c :: nat) \<and> (of_char c :: nat) < 127)
     \<or> (161 \<le> (of_char c :: nat) \<and> (of_char c :: nat) \<noteq> 173)"

definition hex_char :: "nat \<Rightarrow> char" where
  "hex_char d = ''0123456789abcdef'' ! d"

definition repr_char :: "char \<Rightarrow> char \<Rightarrow> string" where
  "repr_char q c =
     (if c = q \<or> c = CHR 0x5C then [CHR 0x5C, c]
      else if c = CHR 0x09 then [CHR 0x5C, CHR ''t'']
      else if c = CHR 0x0A then [CHR 0x5C, CHR ''n'']
      else if c = CHR 0x0D then [CHR 0x5C, CHR ''r'']
      else if printable c then [c]
      else [CHR 0x5C, CHR ''x'', hex_char ((of_char c :: nat) div 16),
            hex_char ((of_char c :: nat) mod 16)])"

definition py_repr :: "string \<Rightarrow> string" where
  "py_repr s =
     (let q = (if CHR 0x27 \<in> set s \<and> CHR 0x22 \<notin> set s then CHR 0x22 else CHR 0x27)
      in q # concat (map (repr_char q) s) @ [q])"

text \<open>
  The exceptions that the script and the \<^verbatim>\<open>wave\<close> module of the standard library can
  raise here, and \<^verbatim>\<open>str(e)\<close>, the text that \<^verbatim>\<open>print(f"Error: {e}")\<close> shows. The
  operating system's messages end with \<^verbatim>\<open>repr\<close> of the file name; a \<^verbatim>\<open>struct.error\<close>
  carries the message of the field that did not fit.
\<close>

datatype exn =
    FileNotFoundError string
  | PermissionError string
  | EOFError
  | RuntimeError
  | WaveError string
  | TypeError string
  | StructError string

fun str_exn :: "exn \<Rightarrow> string" where
  "str_exn (FileNotFoundError p) = ''[Errno 2] No such file or directory: '' @ py_repr p"
| "str_exn (PermissionError p) = ''[Errno 13] Permission denied: '' @ py_repr p"
| "str_exn EOFError = []"
| "str_exn RuntimeError = []"
| "str_exn (WaveError m) = m"
| "str_exn (TypeError m) = m"
| "str_exn (StructError m) = m"

type_synonym byte = "8 word"

text \<open>
  The file system: the content of every file that exists, and the paths that cannot be
  opened for writing. \<^verbatim>\<open>open(p, 'rb')\<close> needs the file; \<^verbatim>\<open>open(p, 'wb')\<close> creates it
  empty (or empties it).
\<close>

record world =
  files :: "string \<rightharpoonup> byte list"
  write_denied :: "string set"

definition open_rb :: "world \<Rightarrow> string \<Rightarrow> exn + byte list" where
  "open_rb w p = (case files w p of None \<Rightarrow> Inl (FileNotFoundError p) | Some bs \<Rightarrow> Inr bs)"

definition open_wb :: "world \<Rightarrow> string \<Rightarrow> exn + world" where
  "open_wb w p = (if p \<in> write_denied w then Inl (PermissionError p)
                  else Inr (w\<lparr>files := (files w)(p \<mapsto> [])\<rparr>))"

section \<open>The struct module: little-endian fields\<close>

definition le16 :: "nat \<Rightarrow> byte list" where
  "le16 v = [of_nat v, of_nat (v div 256)]"

definition le32 :: "nat \<Rightarrow> byte list" where
  "le32 v = [of_nat v, of_nat (v div 256), of_nat (v div 65536), of_nat (v div 16777216)]"

fun u_le :: "byte list \<Rightarrow> nat" where
  "u_le [] = 0"
| "u_le (b # bs) = unat b + 256 * u_le bs"

definition in_H :: "int \<Rightarrow> bool" where
  "in_H v \<longleftrightarrow> 0 \<le> v \<and> v < 65536"

definition in_L :: "int \<Rightarrow> bool" where
  "in_L v \<longleftrightarrow> 0 \<le> v \<and> v < 4294967296"

text \<open>
  A field of a \<^verbatim>\<open>struct.pack\<close> format, \<^verbatim>\<open>L\<close> (32 bits) or \<^verbatim>\<open>H\<close> (16 bits), with its
  argument, and the message of the \<^verbatim>\<open>struct.error\<close> when the argument does not fit. The
  arguments are checked in the order of the format; the first that does not fit raises.
\<close>

datatype field = Field_L int | Field_H int

definition L_range_message :: string where
  "L_range_message = [CHR 0x27] @ ''L'' @ [CHR 0x27]
     @ '' format requires 0 <= number <= 4294967295''"

fun field_error :: "field \<Rightarrow> string option" where
  "field_error (Field_L v) =
     (if in_L v then None
      else if 4294967296 \<le> v \<and> v < 18446744073709551616 then Some L_range_message
      else Some ''argument out of range'')"
| "field_error (Field_H v) =
     (if in_H v then None
      else if - 9223372036854775808 \<le> v \<and> v < 9223372036854775808
      then Some ''ushort format requires 0 <= number <= 65535''
      else Some ''argument out of range'')"

fun first_error :: "field list \<Rightarrow> string option" where
  "first_error [] = None"
| "first_error (f # fs) =
     (case field_error f of Some m \<Rightarrow> Some m | None \<Rightarrow> first_error fs)"

definition struct_L :: "int \<Rightarrow> exn + byte list" where
  "struct_L v =
     (case field_error (Field_L v) of
        Some m \<Rightarrow> Inl (StructError m)
      | None \<Rightarrow> Inr (le32 (nat v)))"

definition RIFF_tag :: "byte list" where "RIFF_tag = [0x52, 0x49, 0x46, 0x46]"
definition WAVE_tag :: "byte list" where "WAVE_tag = [0x57, 0x41, 0x56, 0x45]"
definition fmt_tag :: "byte list" where "fmt_tag = [0x66, 0x6D, 0x74, 0x20]"
definition data_tag :: "byte list" where "data_tag = [0x64, 0x61, 0x74, 0x61]"

section \<open>wave.Wave_read\<close>

text \<open>
  The outer \<^verbatim>\<open>_Chunk\<close> wraps the file: \<open>r_bytes\<close> is the file from byte 8 on, \<open>r_size\<close>
  the RIFF size field and \<open>r_pos\<close> the chunk's \<^verbatim>\<open>size_read\<close>; the file's own position is
  always \<open>8 + r_pos\<close>. Reading past the end of the file returns fewer bytes, seeking past
  it is allowed.
\<close>

record riff =
  r_bytes :: "byte list"
  r_size :: nat
  r_pos :: nat

definition riff_read :: "riff \<Rightarrow> nat \<Rightarrow> byte list \<times> riff" where
  "riff_read r sz =
     (if r_pos r \<ge> r_size r then ([], r)
      else let size' = min sz (r_size r - r_pos r);
               data = take size' (drop (r_pos r) (r_bytes r));
               pos' = r_pos r + length data;
               dummy = (if pos' = r_size r \<and> odd (r_size r)
                        then take 1 (drop pos' (r_bytes r)) else [])
           in (data, r\<lparr>r_pos := pos' + length dummy\<rparr>))"

definition riff_seek_cur :: "riff \<Rightarrow> nat \<Rightarrow> exn + riff" where
  "riff_seek_cur r n =
     (let pos = n + r_pos r
      in if pos > r_size r then Inl RuntimeError else Inr (r\<lparr>r_pos := pos\<rparr>))"

record chunk =
  c_name :: "byte list"
  c_size :: nat
  c_read :: nat

definition new_chunk :: "riff \<Rightarrow> exn + (chunk \<times> riff)" where
  "new_chunk r =
     (let (name, r1) = riff_read r 4
      in if length name < 4 then Inl EOFError
         else let (szb, r2) = riff_read r1 4
              in if length szb < 4 then Inl EOFError
                 else Inr (\<lparr>c_name = name, c_size = u_le szb, c_read = 0\<rparr>, r2))"

definition chunk_read :: "chunk \<Rightarrow> riff \<Rightarrow> nat \<Rightarrow> byte list \<times> chunk \<times> riff" where
  "chunk_read c r sz =
     (if c_read c \<ge> c_size c then ([], c, r)
      else let size' = min sz (c_size c - c_read c);
               (data, r1) = riff_read r size';
               read' = c_read c + length data
           in if read' = c_size c \<and> odd (c_size c)
              then let (dummy, r2) = riff_read r1 1
                   in (data, c\<lparr>c_read := read' + length dummy\<rparr>, r2)
              else (data, c\<lparr>c_read := read'\<rparr>, r1))"

definition chunk_skip :: "chunk \<Rightarrow> riff \<Rightarrow> exn + riff" where
  "chunk_skip c r =
     riff_seek_cur r ((c_size c + (if odd (c_size c) then 1 else 0)) - c_read c)"

record fmt =
  f_nchannels :: nat
  f_framerate :: nat
  f_sampwidth :: nat

definition framesize :: "fmt \<Rightarrow> nat" where
  "framesize f = f_nchannels f * f_sampwidth f"

text \<open>
  \<^verbatim>\<open>_read_fmt_chunk\<close>, for the format tag \<^verbatim>\<open>WAVE_FORMAT_PCM\<close>; every other tag
  is an unknown format here (later versions of the library also read
  \<^verbatim>\<open>WAVE_FORMAT_EXTENSIBLE\<close>).
\<close>

definition read_fmt_chunk :: "chunk \<Rightarrow> riff \<Rightarrow> exn + (fmt \<times> chunk \<times> riff)" where
  "read_fmt_chunk c r =
     (let (b14, c1, r1) = chunk_read c r 14
      in if length b14 < 14 then Inl EOFError
         else let wFormatTag = u_le (take 2 b14);
                  nch = u_le (take 2 (drop 2 b14));
                  rate = u_le (take 4 (drop 4 b14))
              in if wFormatTag = 1
                 then let (b2, c2, r2) = chunk_read c1 r1 2
                      in if length b2 < 2 then Inl EOFError
                         else let sw = (u_le (take 2 b2) + 7) div 8
                              in if sw = 0 then Inl (WaveError ''bad sample width'')
                                 else if nch = 0 then Inl (WaveError ''bad # of channels'')
                                 else Inr (\<lparr>f_nchannels = nch, f_framerate = rate,
                                            f_sampwidth = sw\<rparr>, c2, r2)
                 else Inl (WaveError (''unknown format: '' @ str_nat wFormatTag)))"

text \<open>
  The loop of \<^verbatim>\<open>initfp\<close> over the chunks of the file. It ends at the first \<^verbatim>\<open>data\<close>
  chunk, or when no further chunk header can be read (\<^verbatim>\<open>EOFError\<close> of the \<^verbatim>\<open>_Chunk\<close>
  constructor, the only exception the loop catches).
\<close>

lemma riff_read_facts:
  "riff_read r n = (d, r') \<Longrightarrow>
     r_bytes r' = r_bytes r \<and> r_pos r \<le> r_pos r' \<and> r_pos r + length d \<le> r_pos r'
     \<and> (d \<noteq> [] \<longrightarrow> r_pos r < length (r_bytes r)) \<and> length d \<le> n"
  by (auto simp: riff_read_def Let_def split: if_splits)

lemma new_chunk_facts:
  assumes "new_chunk r = Inr (c, r')"
  shows "r_bytes r' = r_bytes r \<and> r_pos r < r_pos r' \<and> r_pos r < length (r_bytes r)"
proof -
  obtain name r1 where 1: "riff_read r 4 = (name, r1)" by (cases "riff_read r 4")
  obtain szb r2 where 2: "riff_read r1 4 = (szb, r2)" by (cases "riff_read r1 4")
  from assms 1 2 have l: "\<not> length name < 4" "\<not> length szb < 4" and r': "r' = r2"
    by (auto simp: new_chunk_def Let_def split: if_splits)
  from l have n: "name \<noteq> []" "4 \<le> length name" by auto
  from riff_read_facts[OF 1] riff_read_facts[OF 2] n r' show ?thesis by auto
qed

lemma chunk_read_facts:
  assumes "chunk_read c r n = (d, c', r')"
  shows "r_bytes r' = r_bytes r \<and> r_pos r \<le> r_pos r'"
proof -
  obtain d1 r1 where 1: "riff_read r (min n (c_size c - c_read c)) = (d1, r1)"
    by (cases "riff_read r (min n (c_size c - c_read c))")
  obtain d2 r2 where 2: "riff_read r1 1 = (d2, r2)" by (cases "riff_read r1 1")
  from assms 1 2 have "r' = r \<or> r' = r1 \<or> r' = r2"
    by (auto simp: chunk_read_def Let_def split: if_splits)
  with riff_read_facts[OF 1] riff_read_facts[OF 2] show ?thesis by auto
qed

lemma chunk_skip_facts:
  "chunk_skip c r = Inr r' \<Longrightarrow> r_bytes r' = r_bytes r \<and> r_pos r \<le> r_pos r'"
  by (auto simp: chunk_skip_def riff_seek_cur_def Let_def split: if_splits)

lemma read_fmt_chunk_facts:
  assumes "read_fmt_chunk c r = Inr (f, c', r')"
  shows "r_bytes r' = r_bytes r \<and> r_pos r \<le> r_pos r'"
proof -
  obtain b14 c1 r1 where 1: "chunk_read c r 14 = (b14, c1, r1)"
    by (cases "chunk_read c r 14") auto
  obtain b2 c2 r2 where 2: "chunk_read c1 r1 2 = (b2, c2, r2)"
    by (cases "chunk_read c1 r1 2") auto
  from assms 1 2 have "r' = r2"
    by (auto simp: read_fmt_chunk_def Let_def split: if_splits)
  with chunk_read_facts[OF 1] chunk_read_facts[OF 2] show ?thesis by auto
qed

function scan_chunks :: "fmt option \<Rightarrow> riff \<Rightarrow> exn + (fmt option \<times> (chunk \<times> riff) option)" where
  "scan_chunks fm r =
     (case new_chunk r of
        Inl e \<Rightarrow> Inr (fm, None)
      | Inr (c, r1) \<Rightarrow>
          if c_name c = fmt_tag
          then (case read_fmt_chunk c r1 of
                  Inl e \<Rightarrow> Inl e
                | Inr (f, c2, r2) \<Rightarrow>
                    (case chunk_skip c2 r2 of
                       Inl e \<Rightarrow> Inl e
                     | Inr r3 \<Rightarrow> scan_chunks (Some f) r3))
          else if c_name c = data_tag
          then (case fm of
                  None \<Rightarrow> Inl (WaveError ''data chunk before fmt chunk'')
                | Some f \<Rightarrow> Inr (fm, Some (c, r1)))
          else (case chunk_skip c r1 of
                  Inl e \<Rightarrow> Inl e
                | Inr r3 \<Rightarrow> scan_chunks fm r3))"
  by pat_completeness auto

termination
  apply (relation "measure (\<lambda>(fm, r). length (r_bytes r) - r_pos r)")
    apply simp
   apply (auto dest!: new_chunk_facts read_fmt_chunk_facts chunk_skip_facts)
  done

declare scan_chunks.simps [simp del]

record wave_read =
  rd_fmt :: fmt
  rd_data :: chunk
  rd_file :: riff
  rd_nframes :: nat

definition initfp :: "byte list \<Rightarrow> exn + wave_read" where
  "initfp bs =
     (let name = take 4 bs
      in if length name < 4 then Inl EOFError
         else let szb = take 4 (drop 4 bs)
              in if length szb < 4 then Inl EOFError
                 else let file = \<lparr>r_bytes = drop 8 bs, r_size = u_le szb, r_pos = 0\<rparr>
                      in if name \<noteq> RIFF_tag
                         then Inl (WaveError ''file does not start with RIFF id'')
                         else let (form, r1) = riff_read file 4
                              in if form \<noteq> WAVE_tag then Inl (WaveError ''not a WAVE file'')
                                 else (case scan_chunks None r1 of
                                         Inl e \<Rightarrow> Inl e
                                       | Inr (Some f, Some (c, r2)) \<Rightarrow>
                                           Inr \<lparr>rd_fmt = f, rd_data = c, rd_file = r2,
                                                rd_nframes = c_size c div framesize f\<rparr>
                                       | Inr _ \<Rightarrow>
                                           Inl (WaveError ''fmt chunk and/or data chunk missing'')))"

text \<open>\<^verbatim>\<open>wave.open(f, 'rb')\<close>: open the file, then \<^verbatim>\<open>initfp\<close>.\<close>

definition wave_open_rb :: "world \<Rightarrow> string \<Rightarrow> exn + wave_read" where
  "wave_open_rb w p = (case open_rb w p of Inl e \<Rightarrow> Inl e | Inr bs \<Rightarrow> initfp bs)"

text \<open>
  \<^verbatim>\<open>getparams()\<close>: the tuple \<open>(nchannels, sampwidth, framerate, nframes, comptype,
  compname)\<close>.
\<close>

type_synonym params = "int \<times> int \<times> int \<times> int \<times> string \<times> string"

definition getparams :: "wave_read \<Rightarrow> params" where
  "getparams rd =
     (int (f_nchannels (rd_fmt rd)), int (f_sampwidth (rd_fmt rd)),
      int (f_framerate (rd_fmt rd)), int (rd_nframes rd), ''NONE'', ''not compressed'')"

text \<open>
  \<^verbatim>\<open>readframes(nframes)\<close>, called once on a freshly opened reader (the data chunk is at
  its start), on a little-endian machine.
\<close>

definition readframes :: "wave_read \<Rightarrow> int \<Rightarrow> byte list" where
  "readframes rd n =
     (if n = 0 then []
      else fst (chunk_read (rd_data rd) (rd_file rd) (nat n * framesize (rd_fmt rd))))"

section \<open>wave.Wave_write\<close>

text \<open>
  The writer's fields, and in \<open>wr_file\<close> the bytes written to the output file so far. The
  two size fields of the header are at offsets 4 and 40.
\<close>

record wave_write =
  wr_nchannels :: int
  wr_sampwidth :: int
  wr_framerate :: int
  wr_nframes :: int
  wr_datawritten :: int
  wr_datalength :: int
  wr_headerwritten :: bool
  wr_file :: "byte list"

definition new_writer :: wave_write where
  "new_writer = \<lparr>wr_nchannels = 0, wr_sampwidth = 0, wr_framerate = 0, wr_nframes = 0,
     wr_datawritten = 0, wr_datalength = 0, wr_headerwritten = False, wr_file = []\<rparr>"

text \<open>
  A method that can raise returns the exception, if any, and the writer as the method left
  it: the writer is closed afterwards, whatever happened.
\<close>

definition setparams :: "wave_write \<Rightarrow> params \<Rightarrow> exn option \<times> wave_write" where
  "setparams w p =
     (case p of (nchannels, sampwidth, framerate, nframes, comptype, compname) \<Rightarrow>
        if wr_datawritten w \<noteq> 0
        then (Some (WaveError ''cannot change parameters after starting to write''), w)
        else if nchannels < 1 then (Some (WaveError ''bad # of channels''), w)
        else let w1 = w\<lparr>wr_nchannels := nchannels\<rparr>
             in if sampwidth < 1 \<or> sampwidth > 4 then (Some (WaveError ''bad sample width''), w1)
                else let w2 = w1\<lparr>wr_sampwidth := sampwidth\<rparr>
                     in if framerate \<le> 0 then (Some (WaveError ''bad frame rate''), w2)
                        else let w3 = w2\<lparr>wr_framerate := framerate, wr_nframes := nframes\<rparr>
                             in if comptype \<noteq> ''NONE''
                                then (Some (WaveError ''unsupported compression type''), w3)
                                else (None, w3))"

text \<open>
  The one \<^verbatim>\<open>struct.pack('<L4s4sLHHLLHH4s', ...)\<close> of the header: it raises when a field
  does not fit its width.
\<close>

definition pack_header :: "int \<Rightarrow> int \<Rightarrow> int \<Rightarrow> int \<Rightarrow> exn + byte list" where
  "pack_header datalength nch rate sw =
     (case first_error [Field_L (36 + datalength), Field_L 16, Field_H 1, Field_H nch,
             Field_L rate, Field_L (nch * rate * sw), Field_H (nch * sw), Field_H (sw * 8)] of
        Some m \<Rightarrow> Inl (StructError m)
      | None \<Rightarrow>
          Inr (le32 (nat (36 + datalength)) @ WAVE_tag @ fmt_tag @ le32 16 @ le16 1
               @ le16 (nat nch) @ le32 (nat rate) @ le32 (nat (nch * rate * sw))
               @ le16 (nat (nch * sw)) @ le16 (nat (sw * 8)) @ data_tag))"

definition write_header :: "wave_write \<Rightarrow> int \<Rightarrow> exn option \<times> wave_write" where
  "write_header w initlength =
     (let w1 = w\<lparr>wr_file := wr_file w @ RIFF_tag\<rparr>;
          w2 = (if wr_nframes w1 = 0
                then w1\<lparr>wr_nframes := initlength div (wr_nchannels w1 * wr_sampwidth w1)\<rparr>
                else w1);
          w3 = w2\<lparr>wr_datalength := wr_nframes w2 * wr_nchannels w2 * wr_sampwidth w2\<rparr>
      in case pack_header (wr_datalength w3) (wr_nchannels w3) (wr_framerate w3)
                (wr_sampwidth w3) of
           Inl e \<Rightarrow> (Some e, w3)
         | Inr hb \<Rightarrow>
             let w4 = w3\<lparr>wr_file := wr_file w3 @ hb\<rparr>
             in (case struct_L (wr_datalength w4) of
                   Inl e \<Rightarrow> (Some e, w4)
                 | Inr lb \<Rightarrow> (None, w4\<lparr>wr_file := wr_file w4 @ lb,
                                          wr_headerwritten := True\<rparr>)))"

definition ensure_header_written :: "wave_write \<Rightarrow> int \<Rightarrow> exn option \<times> wave_write" where
  "ensure_header_written w datasize =
     (if wr_headerwritten w then (None, w)
      else if wr_nchannels w = 0 then (Some (WaveError ''# channels not specified''), w)
      else if wr_sampwidth w = 0 then (Some (WaveError ''sample width not specified''), w)
      else if wr_framerate w = 0 then (Some (WaveError ''sampling rate not specified''), w)
      else write_header w datasize)"

text \<open>Writing \<open>new\<close> over the bytes at offset \<open>pos\<close> (seek, write, seek back).\<close>

definition overwrite :: "byte list \<Rightarrow> nat \<Rightarrow> byte list \<Rightarrow> byte list" where
  "overwrite bs pos new = take pos bs @ new @ drop (pos + length new) bs"

definition patchheader :: "wave_write \<Rightarrow> exn option \<times> wave_write" where
  "patchheader w =
     (if wr_datawritten w = wr_datalength w then (None, w)
      else case struct_L (36 + wr_datawritten w) of
             Inl e \<Rightarrow> (Some e, w)
           | Inr b1 \<Rightarrow>
               let w1 = w\<lparr>wr_file := overwrite (wr_file w) 4 b1\<rparr>
               in (case struct_L (wr_datawritten w1) of
                     Inl e \<Rightarrow> (Some e, w1)
                   | Inr b2 \<Rightarrow> (None, w1\<lparr>wr_file := overwrite (wr_file w1) 40 b2,
                                            wr_datalength := wr_datawritten w1\<rparr>)))"

definition writeframesraw :: "wave_write \<Rightarrow> byte list \<Rightarrow> exn option \<times> wave_write" where
  "writeframesraw w data =
     (case ensure_header_written w (int (length data)) of
        (Some e, w1) \<Rightarrow> (Some e, w1)
      | (None, w1) \<Rightarrow>
          (None, w1\<lparr>wr_file := wr_file w1 @ data,
                    wr_datawritten := wr_datawritten w1 + int (length data)\<rparr>))"

definition writeframes :: "wave_write \<Rightarrow> byte list \<Rightarrow> exn option \<times> wave_write" where
  "writeframes w data =
     (case writeframesraw w data of
        (Some e, w1) \<Rightarrow> (Some e, w1)
      | (None, w1) \<Rightarrow>
          if wr_datalength w1 \<noteq> wr_datawritten w1 then patchheader w1 else (None, w1))"

definition close_writer :: "wave_write \<Rightarrow> exn option \<times> wave_write" where
  "close_writer w =
     (case ensure_header_written w 0 of
        (Some e, w1) \<Rightarrow> (Some e, w1)
      | (None, w1) \<Rightarrow>
          if wr_datalength w1 \<noteq> wr_datawritten w1 then patchheader w1 else (None, w1))"

section \<open>change_sample_rate\<close>

text \<open>
  The body of \<^verbatim>\<open>with wave.open(output_wav, 'wb') as out_wav\<close>, and the statement as a
  whole: the writer is closed on every exit, an exception of \<^verbatim>\<open>close\<close> replaces the one
  of the body, and the bytes written until then are the content of the output file.
\<close>

definition out_body :: "wave_write \<Rightarrow> wave_read \<Rightarrow> params \<Rightarrow> exn option \<times> wave_write" where
  "out_body out_wav in_wav p =
     (case setparams out_wav p of
        (Some e, w1) \<Rightarrow> (Some e, w1)
      | (None, w1) \<Rightarrow>
          (case p of (num_channels, sample_width, new_sample_rate, num_frames, ct, cn) \<Rightarrow>
             let frames = readframes in_wav num_frames
             in writeframes w1 frames))"

definition with_out_wav :: "wave_read \<Rightarrow> params \<Rightarrow> exn option \<times> byte list" where
  "with_out_wav in_wav p =
     (let (raised, w1) = out_body new_writer in_wav p;
          (raised_close, w2) = close_writer w1
      in (case raised_close of Some e \<Rightarrow> Some e | None \<Rightarrow> raised, wr_file w2))"

definition suffix_name :: "int \<Rightarrow> int \<Rightarrow> string" where
  "suffix_name old_sample_rate new_sample_rate =
     ''--sample_rate_changed__'' @ str_int old_sample_rate @ ''_to_'' @ str_int new_sample_rate"

text \<open>
  The message of the \<^verbatim>\<open>TypeError\<close> that \<^verbatim>\<open>None + str\<close> raises.
\<close>

definition none_plus_str :: string where
  "none_plus_str = ''unsupported operand type(s) for +: '' @ [CHR 0x27] @ ''NoneType''
     @ [CHR 0x27] @ '' and '' @ [CHR 0x27] @ ''str'' @ [CHR 0x27]"

text \<open>
  The \<^verbatim>\<open>try\<close> block: the file system it leaves, and either the exception that reaches
  the \<^verbatim>\<open>except\<close> clause or the old sample rate and the output path that the final
  message prints.
\<close>

definition try_block :: "world \<Rightarrow> string \<Rightarrow> int \<Rightarrow> world \<times> (exn + int \<times> string)" where
  "try_block w input_wav new_sample_rate =
     (case wave_open_rb w input_wav of
        Inl e \<Rightarrow> (w, Inl e)
      | Inr in_wav \<Rightarrow>
          (case getparams in_wav of
             (num_channels, sample_width, old_sample_rate, num_frames, comptype, compname) \<Rightarrow>
               let (path, input_wav_name) = get_path_name input_wav;
                   output_wav_name = input_wav_name @ suffix_name old_sample_rate new_sample_rate
               in (case path of
                     None \<Rightarrow> (w, Inl (TypeError none_plus_str))
                   | Some dir \<Rightarrow>
                       let output_wav = dir @ output_wav_name @ ''.wav''
                       in (case open_wb w output_wav of
                             Inl e \<Rightarrow> (w, Inl e)
                           | Inr w1 \<Rightarrow>
                               let (raised, content) = with_out_wav in_wav
                                     (num_channels, sample_width, new_sample_rate, num_frames,
                                      comptype, compname);
                                   w2 = w1\<lparr>files := (files w1)(output_wav \<mapsto> content)\<rparr>
                               in (case raised of
                                     Some e \<Rightarrow> (w2, Inl e)
                                   | None \<Rightarrow> (w2, Inr (old_sample_rate, output_wav)))))))"

text \<open>The function returns nothing; the model returns the file system and the line printed.\<close>

definition change_sample_rate :: "world \<Rightarrow> string \<Rightarrow> int \<Rightarrow> world \<times> string" where
  "change_sample_rate w input_wav new_sample_rate =
     (case try_block w input_wav new_sample_rate of
        (w', Inr (old_sample_rate, output_wav)) \<Rightarrow>
          (w', ''Sample rate changed from '' @ str_int old_sample_rate @ '' Hz to ''
               @ str_int new_sample_rate @ '' Hz and saved as '' @ output_wav)
      | (w', Inl e) \<Rightarrow> (w', ''Error: '' @ str_exn e))"

section \<open>main\<close>

text \<open>
  \<^verbatim>\<open>int(s)\<close> on a string of code points below 256: surrounding whitespace (space, tab
  to carriage return, U+0085 and U+00A0; not the separators U+001C to U+001F), an
  optional sign, decimal digits, single underscores between digits, and at most 4300
  digits. \<open>None\<close> is \<^verbatim>\<open>ValueError\<close>.
\<close>

definition is_space :: "char \<Rightarrow> bool" where
  "is_space c \<longleftrightarrow> c = CHR '' '' \<or> (9 \<le> (of_char c :: nat) \<and> (of_char c :: nat) \<le> 13)
     \<or> c = CHR 0x85 \<or> c = CHR 0xA0"

definition is_digit :: "char \<Rightarrow> bool" where
  "is_digit c \<longleftrightarrow> 48 \<le> (of_char c :: nat) \<and> (of_char c :: nat) \<le> 57"

definition digit_val :: "char \<Rightarrow> nat" where
  "digit_val c = of_char c - 48"

fun parse_digits :: "string \<Rightarrow> nat \<Rightarrow> nat option" where
  "parse_digits [] acc = Some acc"
| "parse_digits [c] acc = (if is_digit c then Some (10 * acc + digit_val c) else None)"
| "parse_digits (c # d # ds) acc =
     (if c = CHR ''_''
      then (if is_digit d then parse_digits ds (10 * acc + digit_val d) else None)
      else if is_digit c then parse_digits (d # ds) (10 * acc + digit_val c)
      else None)"

definition strip :: "string \<Rightarrow> string" where
  "strip s = rev (dropWhile is_space (rev (dropWhile is_space s)))"

definition max_str_digits :: nat where
  "max_str_digits = 4300"

definition py_int :: "string \<Rightarrow> int option" where
  "py_int s =
     (let t = strip s;
          neg = (t \<noteq> [] \<and> hd t = CHR ''-'');
          u = (if t \<noteq> [] \<and> (hd t = CHR ''-'' \<or> hd t = CHR ''+'') then tl t else t)
      in case u of
           [] \<Rightarrow> None
         | c # cs \<Rightarrow>
             if is_digit c \<and> length (filter is_digit u) \<le> max_str_digits
             then map_option (\<lambda>n. if neg then - int n else int n) (parse_digits cs (digit_val c))
             else None)"

text \<open>
  \<open>argv\<close> is \<^verbatim>\<open>sys.argv\<close>, the script name first. The result is the file system, the
  line printed, and the exit status of the process: 1 where the source calls
  \<^verbatim>\<open>sys.exit(1)\<close>, 0 when \<^verbatim>\<open>main\<close> returns.
\<close>

definition main :: "world \<Rightarrow> string list \<Rightarrow> world \<times> string \<times> int" where
  "main w argv =
     (if length argv \<noteq> 3
      then (w, ''Usage: python change_tempo_and_pitch_via_sample_rate <input_wav> <new_sample_rate>'', 1)
      else let input_wav = argv ! 1
           in (case py_int (argv ! 2) of
                 None \<Rightarrow> (w, ''Error: The sample rate must be an integer.'', 1)
               | Some new_sample_rate \<Rightarrow>
                   (case change_sample_rate w input_wav new_sample_rate of
                      (w', line) \<Rightarrow> (w', line, 0))))"

section \<open>Vocabulary of the statements\<close>

text \<open>
  The canonical file of one \<^verbatim>\<open>fmt\<close> chunk and one \<^verbatim>\<open>data\<close> chunk: a 44-byte header
  for \<open>nch\<close> channels of \<open>sw\<close> bytes at \<open>rate\<close> Hz that declares \<open>dlen\<close> data bytes, then the
  payload.
\<close>

definition wav_header :: "nat \<Rightarrow> nat \<Rightarrow> nat \<Rightarrow> nat \<Rightarrow> byte list" where
  "wav_header nch sw rate dlen =
     RIFF_tag @ le32 (36 + dlen) @ WAVE_tag @ fmt_tag @ le32 16 @ le16 1 @ le16 nch
       @ le32 rate @ le32 (nch * rate * sw) @ le16 (nch * sw) @ le16 (sw * 8)
       @ data_tag @ le32 dlen"

definition wav_bytes :: "nat \<Rightarrow> nat \<Rightarrow> nat \<Rightarrow> nat \<Rightarrow> byte list \<Rightarrow> byte list" where
  "wav_bytes nch sw rate dlen payload = wav_header nch sw rate dlen @ payload"

text \<open>
  What a file holds for a reader: its header fields as \<^verbatim>\<open>getparams\<close> gives them, and its
  frame bytes as \<^verbatim>\<open>readframes\<close> gives them for the frame count of the header.
\<close>

definition params_of :: "byte list \<Rightarrow> exn + params" where
  "params_of bs = (case initfp bs of Inl e \<Rightarrow> Inl e | Inr rd \<Rightarrow> Inr (getparams rd))"

definition frames_of :: "byte list \<Rightarrow> exn + byte list" where
  "frames_of bs =
     (case initfp bs of Inl e \<Rightarrow> Inl e | Inr rd \<Rightarrow> Inr (readframes rd (int (rd_nframes rd))))"

text \<open>The output path that the script derives for an input with a directory part.\<close>

definition output_path :: "string \<Rightarrow> string \<Rightarrow> int \<Rightarrow> int \<Rightarrow> string" where
  "output_path dir rest old new =
     dir @ take (length rest - 4) rest @ suffix_name old new @ ''.wav''"

text \<open>
  Auxiliary states of the proofs: the outer chunk of a canonical file read up to \<open>pos\<close>,
  the reader that \<^verbatim>\<open>initfp\<close> builds on such a file, and the writer after
  \<^verbatim>\<open>setparams\<close> and after \<^verbatim>\<open>writeframes\<close>.
\<close>

definition canon_riff :: "nat \<Rightarrow> nat \<Rightarrow> nat \<Rightarrow> nat \<Rightarrow> byte list \<Rightarrow> nat \<Rightarrow> riff" where
  "canon_riff nch sw rate dlen payload pos =
     \<lparr>r_bytes = WAVE_tag @ fmt_tag @ le32 16 @ le16 1 @ le16 nch
        @ le32 rate @ le32 (nch * rate * sw) @ le16 (nch * sw) @ le16 (sw * 8)
        @ data_tag @ le32 dlen @ payload,
      r_size = 36 + dlen, r_pos = pos\<rparr>"

definition canon_reader :: "nat \<Rightarrow> nat \<Rightarrow> nat \<Rightarrow> nat \<Rightarrow> byte list \<Rightarrow> wave_read" where
  "canon_reader nch sw rate dlen payload =
     \<lparr>rd_fmt = \<lparr>f_nchannels = nch, f_framerate = rate, f_sampwidth = sw\<rparr>,
      rd_data = \<lparr>c_name = data_tag, c_size = dlen, c_read = 0\<rparr>,
      rd_file = canon_riff nch sw rate dlen payload 36,
      rd_nframes = dlen div (nch * sw)\<rparr>"

definition set_writer :: "nat \<Rightarrow> nat \<Rightarrow> nat \<Rightarrow> nat \<Rightarrow> wave_write" where
  "set_writer n s r nf = \<lparr>wr_nchannels = int n, wr_sampwidth = int s, wr_framerate = int r,
     wr_nframes = int nf, wr_datawritten = 0, wr_datalength = 0, wr_headerwritten = False,
     wr_file = []\<rparr>"

definition done_writer :: "nat \<Rightarrow> nat \<Rightarrow> nat \<Rightarrow> nat \<Rightarrow> byte list \<Rightarrow> wave_write" where
  "done_writer n s r nf data = \<lparr>wr_nchannels = int n, wr_sampwidth = int s,
     wr_framerate = int r, wr_nframes = int nf, wr_datawritten = int (length data),
     wr_datalength = int (length data), wr_headerwritten = True,
     wr_file = wav_bytes n s r (length data) data\<rparr>"

text \<open>The sample rate of a file, and its other header fields (channels, width, frames).\<close>

definition rate_of :: "byte list \<Rightarrow> exn + int" where
  "rate_of bs =
     (case params_of bs of Inl e \<Rightarrow> Inl e
      | Inr (nchannels, sampwidth, framerate, nframes, comptype, compname) \<Rightarrow> Inr framerate)"

definition other_fields_of :: "byte list \<Rightarrow> exn + int \<times> int \<times> int" where
  "other_fields_of bs =
     (case params_of bs of Inl e \<Rightarrow> Inl e
      | Inr (nchannels, sampwidth, framerate, nframes, comptype, compname) \<Rightarrow>
          Inr (nchannels, sampwidth, nframes))"

text \<open>
  The scenario of the specification: a mono, 16-bit, 48000 Hz file of 1000 frames, once
  under a path with a directory and once as \<^verbatim>\<open>input.wav\<close>; beside it a file that
  declares 2000 data bytes and holds 1000, and a file that is no WAV file.
\<close>

definition example_payload :: "byte list" where
  "example_payload = replicate 2000 0"

definition example_wav :: "byte list" where
  "example_wav = wav_bytes 1 2 48000 2000 example_payload"

definition cut_wav :: "byte list" where
  "cut_wav = wav_bytes 1 2 48000 2000 (replicate 1000 0)"

definition example_world :: world where
  "example_world =
     \<lparr>files = [''/home/folder/input.wav'' \<mapsto> example_wav,
               ''input.wav'' \<mapsto> example_wav,
               ''/home/folder/cut.wav'' \<mapsto> cut_wav,
               ''/home/folder/notes.wav'' \<mapsto> [0x6E, 0x6F, 0x74, 0x65, 0x73, 0x0A, 0x31, 0x32, 0x33]],
      write_denied = {}\<rparr>"

text \<open>
  A second scene: four frames of mono 16-bit samples at 44100 Hz, every byte different.
\<close>

definition ramp_payload :: "byte list" where
  "ramp_payload = [0x01, 0x23, 0x45, 0x67, 0x89, 0xAB, 0xCD, 0xEF]"

definition ramp_wav :: "byte list" where
  "ramp_wav = wav_bytes 1 2 44100 8 ramp_payload"

definition ramp_world :: world where
  "ramp_world = \<lparr>files = [''/music/ramp.wav'' \<mapsto> ramp_wav], write_denied = {}\<rparr>"

section \<open>Properties of get_path_name\<close>

lemma rfind_ge: "- 1 \<le> rfind s c"
  by (induction s) (auto simp: Let_def)

lemma last_sep_Nil: "last_sep [] = - 1"
  by (simp add: last_sep_def)

lemma last_sep_Cons:
  "last_sep (x # xs) =
     (if 0 \<le> last_sep xs then last_sep xs + 1 else if is_sep x then 0 else - 1)"
  using rfind_ge[of xs slash] rfind_ge[of xs backslash]
  by (auto simp: last_sep_def Let_def is_sep_def max_def)

lemma last_sep_none:
  "last_sep s < 0 \<longleftrightarrow> (\<forall>c \<in> set s. \<not> is_sep c)"
  by (induction s) (auto simp: last_sep_Nil last_sep_Cons)

lemma last_sep_ge: "- 1 \<le> last_sep s"
  by (induction s) (auto simp: last_sep_Nil last_sep_Cons)

lemma last_sep_split:
  "0 \<le> last_sep s \<Longrightarrow>
   \<exists>pre c post. s = pre @ c # post \<and> is_sep c \<and> (\<forall>x \<in> set post. \<not> is_sep x)
      \<and> last_sep s = int (length pre)"
proof (induction s)
  case Nil
  then show ?case by (simp add: last_sep_Nil)
next
  case (Cons x xs)
  show ?case
  proof (cases "0 \<le> last_sep xs")
    case True
    with Cons.IH obtain pre c post where
      "xs = pre @ c # post" "is_sep c" "\<forall>x \<in> set post. \<not> is_sep x"
      "last_sep xs = int (length pre)" by blast
    then show ?thesis using True
      by (intro exI[of _ "x # pre"] exI[of _ c] exI[of _ post]) (simp add: last_sep_Cons)
  next
    case False
    with Cons.prems have x: "is_sep x" by (auto simp: last_sep_Cons split: if_splits)
    from False have "\<forall>c \<in> set xs. \<not> is_sep c" using last_sep_none[of xs] by simp
    with x False show ?thesis
      by (intro exI[of _ "[]"] exI[of _ x] exI[of _ xs]) (simp add: last_sep_Cons)
  qed
qed

lemma clip_neg4: "clip_index n (- 4) = n - 4"
  by (auto simp: clip_index_def)

lemma clip_nat1: "clip_index n (int k + 1) = min n (Suc k)"
  by (auto simp: clip_index_def)

lemma clip_0: "clip_index n 0 = 0"
  by (auto simp: clip_index_def)

lemma get_path_name_sep:
  assumes "s = pre @ c # post" "last_sep s = int (length pre)"
  shows "get_path_name s = (Some (pre @ [c]), take (length post - 4) post)"
  using assms
  by (simp add: get_path_name_def last_sep_def[symmetric] py_slice_def clip_neg4 clip_nat1
      clip_0 Let_def)

lemma get_path_name_nosep:
  assumes "last_sep s = - 1"
  shows "get_path_name s = (None, take (length s - 4) s)"
  using assms
  by (simp add: get_path_name_def last_sep_def[symmetric] py_slice_def clip_neg4 clip_0 Let_def)

lemma no_sep_last_sep: "(\<forall>c \<in> set s. \<not> is_sep c) \<Longrightarrow> last_sep s = - 1"
  using last_sep_none[of s] last_sep_ge[of s] by simp

lemma some_sep_last_sep: "\<exists>c \<in> set s. is_sep c \<Longrightarrow> 0 \<le> last_sep s"
  using last_sep_none[of s] by auto

lemma dot_wav_no_sep: "c \<in> set ''.wav'' \<Longrightarrow> \<not> is_sep c"
  by (auto simp: is_sep_def slash_def backslash_def)

text \<open>
  How the result is cut out of the input, whatever the input is: the input splits at its
  last separator into a prefix \<open>pre\<close> (empty when there is no separator) and the rest; the
  path is \<open>pre\<close> (or \<open>None\<close>), the name is the rest without its last four characters.
\<close>

lemma get_path_name_shape:
  "\<exists>pre rest. p = pre @ rest \<and> (pre = [] \<or> is_sep (last pre))
      \<and> (\<forall>c \<in> set rest. \<not> is_sep c)
      \<and> get_path_name p = (if pre = [] then None else Some pre, take (length rest - 4) rest)"
proof (cases "0 \<le> last_sep p")
  case True
  from last_sep_split[OF True] obtain pre c post where
    p: "p = pre @ c # post" and c: "is_sep c" and post: "\<forall>x \<in> set post. \<not> is_sep x"
    and l: "last_sep p = int (length pre)" by blast
  from get_path_name_sep[OF p l] p c post show ?thesis
    by (intro exI[of _ "pre @ [c]"] exI[of _ post]) simp
next
  case False
  then have l: "last_sep p = - 1" using last_sep_ge[of p] by simp
  from False have "\<forall>c \<in> set p. \<not> is_sep c" using last_sep_none[of p] by simp
  with get_path_name_nosep[OF l] show ?thesis
    by (intro exI[of _ "[]"] exI[of _ p]) simp
qed

text \<open>
  Claim C9. For a string \<open>p\<close> that ends in \<open>.wav\<close> and contains a separator,
  \<open>get_path_name p\<close> returns a path that ends with the last separator of \<open>p\<close> (what
  follows it in \<open>p\<close> has no separator) and \<open>path + name + ".wav"\<close> is \<open>p\<close> again; for a
  string without any separator the returned path is \<open>None\<close>.
\<close>

theorem get_path_name_reconstructs:
  "(p = stem @ ''.wav'' \<and> (\<exists>c \<in> set p. is_sep c) \<longrightarrow>
      (\<exists>path name. get_path_name p = (Some path, name) \<and> path @ name @ ''.wav'' = p
          \<and> path \<noteq> [] \<and> is_sep (last path) \<and> (\<forall>c \<in> set (name @ ''.wav''). \<not> is_sep c)))
   \<and> ((\<forall>c \<in> set p. \<not> is_sep c) \<longrightarrow> fst (get_path_name p) = None)"
proof (intro conjI impI)
  assume a: "p = stem @ ''.wav'' \<and> (\<exists>c \<in> set p. is_sep c)"
  then have "0 \<le> last_sep p" using some_sep_last_sep by blast
  from last_sep_split[OF this] obtain pre c post where
    p: "p = pre @ c # post" and c: "is_sep c" and post: "\<forall>x \<in> set post. \<not> is_sep x"
    and l: "last_sep p = int (length pre)" by blast
  from a p have e: "pre @ c # post = stem @ ''.wav''" by simp
  have "\<exists>name. post = name @ ''.wav''"
  proof -
    from e obtain us where
      "(pre = stem @ us \<and> us @ c # post = ''.wav'') \<or> (pre @ us = stem \<and> c # post = us @ ''.wav'')"
      unfolding append_eq_append_conv2 by blast
    then show ?thesis
    proof
      assume "pre = stem @ us \<and> us @ c # post = ''.wav''"
      then have "c \<in> set ''.wav''" by (metis in_set_conv_decomp)
      with c dot_wav_no_sep show ?thesis by blast
    next
      assume b: "pre @ us = stem \<and> c # post = us @ ''.wav''"
      show ?thesis
      proof (cases us)
        case Nil
        with b have "c \<in> set ''.wav''" by simp
        with c dot_wav_no_sep show ?thesis by blast
      next
        case (Cons u us')
        with b show ?thesis by simp
      qed
    qed
  qed
  then obtain name where n: "post = name @ ''.wav''" by blast
  have g: "get_path_name p = (Some (pre @ [c]), name)"
    using get_path_name_sep[OF p l] n by simp
  show "\<exists>path name. get_path_name p = (Some path, name) \<and> path @ name @ ''.wav'' = p
          \<and> path \<noteq> [] \<and> is_sep (last path) \<and> (\<forall>c \<in> set (name @ ''.wav''). \<not> is_sep c)"
    using g p n c post by (intro exI[of _ "pre @ [c]"] exI[of _ name]) simp
next
  assume "\<forall>c \<in> set p. \<not> is_sep c"
  from get_path_name_nosep[OF no_sep_last_sep[OF this]]
  show "fst (get_path_name p) = None" by simp
qed

theorem get_path_name_reconstructs_witness:
  "(\<exists>path name. get_path_name ''/home/folder/input.wav'' = (Some path, name)
       \<and> path @ name @ ''.wav'' = ''/home/folder/input.wav''
       \<and> path \<noteq> [] \<and> is_sep (last path) \<and> (\<forall>c \<in> set (name @ ''.wav''). \<not> is_sep c))
   \<and> fst (get_path_name ''input.wav'') = None"
proof
  have h: "''/home/folder/input.wav'' = ''/home/folder/input'' @ ''.wav''
      \<and> (\<exists>c \<in> set ''/home/folder/input.wav''. is_sep c)"
    by (simp add: is_sep_def slash_def)
  from get_path_name_reconstructs[of "''/home/folder/input.wav''" "''/home/folder/input''",
      THEN conjunct1, THEN mp, OF h]
  show "\<exists>path name. get_path_name ''/home/folder/input.wav'' = (Some path, name)
       \<and> path @ name @ ''.wav'' = ''/home/folder/input.wav''
       \<and> path \<noteq> [] \<and> is_sep (last path) \<and> (\<forall>c \<in> set (name @ ''.wav''). \<not> is_sep c)" .
next
  have h: "\<forall>c \<in> set ''input.wav''. \<not> is_sep c"
    by (simp add: is_sep_def slash_def backslash_def)
  from get_path_name_reconstructs[of "''input.wav''" "''input''",
      THEN conjunct2, THEN mp, OF h]
  show "fst (get_path_name ''input.wav'') = None" .
qed

text \<open>
  Claim C10. For every input string the name is what lies between the last separator (or
  the start of the string) and the position four characters before the end: the last four
  characters are dropped whatever they are, and nothing checks that they are \<open>.wav\<close>.
\<close>

theorem get_path_name_drops_four:
  "\<exists>pre rest. p = pre @ rest \<and> (pre = [] \<or> is_sep (last pre))
      \<and> (\<forall>c \<in> set rest. \<not> is_sep c)
      \<and> snd (get_path_name p) = take (length rest - 4) rest"
  using get_path_name_shape[of p] by fastforce

theorem get_path_name_drops_four_witness:
  "snd (get_path_name ''/music/track.flac'') = ''track.'' \<and>
   snd (get_path_name ''ab'') = []"
proof -
  from get_path_name_drops_four[of "''ab''"] obtain pre' rest' where
    b: "''ab'' = pre' @ rest'"
       "snd (get_path_name ''ab'') = take (length rest' - 4) rest'" by blast
  from b(1) have "length rest' \<le> 2"
    by (metis length_append le_add2 length_Cons list.size(3) numeral_2_eq_2)
  with b(2) have 2: "snd (get_path_name ''ab'') = []" by simp
  have 1: "snd (get_path_name ''/music/track.flac'') = ''track.''"
    by (simp add: get_path_name_def py_slice_def clip_index_def slash_def backslash_def Let_def)
  from 1 2 show ?thesis by simp
qed

section \<open>Little-endian fields and the canonical file\<close>

lemma u_le_le32:
  assumes "v < 4294967296"
  shows "u_le (le32 v) = v"
proof -
  define a where "a = v div 256"
  define b where "b = a div 256"
  define c where "c = b div 256"
  have b': "v div 65536 = b" unfolding b_def a_def by (simp add: div_mult2_eq)
  have c': "v div 16777216 = c" unfolding c_def b_def a_def by (simp add: div_mult2_eq)
  have "v div 16777216 < 256" using assms by (intro less_mult_imp_div_less) simp
  then have cm: "c mod 256 = c" unfolding c' by simp
  have 1: "b mod 256 + 256 * c = b" unfolding c_def by simp
  have 2: "a mod 256 + 256 * b = a" unfolding b_def by simp
  have 3: "v mod 256 + 256 * a = v" unfolding a_def by simp
  have "u_le (le32 v) = v mod 256 + 256 * (a mod 256 + 256 * (b mod 256 + 256 * (c mod 256)))"
    unfolding le32_def b' c' a_def by (simp add: unat_of_nat)
  then show ?thesis unfolding cm 1 2 3 .
qed

lemma u_le_le16: "v < 65536 \<Longrightarrow> u_le (le16 v) = v"
  by (simp add: le16_def unat_of_nat)

lemma length_le32: "length (le32 v) = 4"
  by (simp add: le32_def)

lemma length_le16: "length (le16 v) = 2"
  by (simp add: le16_def)

lemma length_tags:
  "length RIFF_tag = 4" "length WAVE_tag = 4" "length fmt_tag = 4" "length data_tag = 4"
  by (simp_all add: RIFF_tag_def WAVE_tag_def fmt_tag_def data_tag_def)

lemma tags_distinct: "data_tag \<noteq> fmt_tag" "fmt_tag \<noteq> data_tag"
  by (simp_all add: fmt_tag_def data_tag_def)

lemma last_sep_append:
  assumes "is_sep c" "\<forall>x \<in> set post. \<not> is_sep x"
  shows "last_sep (pre @ c # post) = int (length pre)"
proof (induction pre)
  case Nil
  from assms(2) have "last_sep post = - 1" by (rule no_sep_last_sep)
  with assms(1) show ?case by (simp add: last_sep_Cons)
next
  case (Cons x pre)
  then show ?case by (simp add: last_sep_Cons)
qed

lemma get_path_name_dir:
  assumes "dir \<noteq> []" "is_sep (last dir)" "\<forall>c \<in> set rest. \<not> is_sep c"
  shows "get_path_name (dir @ rest) = (Some dir, take (length rest - 4) rest)"
proof -
  from assms(1) have d: "dir = butlast dir @ [last dir]" by simp
  have p: "dir @ rest = butlast dir @ last dir # rest"
    by (subst d) simp
  have l: "last_sep (dir @ rest) = int (length (butlast dir))"
    unfolding p using assms(2,3) by (rule last_sep_append)
  from get_path_name_sep[OF p l] d show ?thesis by simp
qed

text \<open>Reading through the outer chunk, inside the file and inside the RIFF size.\<close>

lemma riff_read_inside:
  assumes "r_pos r < r_size r" "r_pos r + n \<le> r_size r" "length (r_bytes r) \<le> r_size r"
  shows "riff_read r n = (take n (drop (r_pos r) (r_bytes r)),
           r\<lparr>r_pos := r_pos r + length (take n (drop (r_pos r) (r_bytes r)))\<rparr>)"
  using assms by (auto simp: riff_read_def Let_def min_def)

lemmas canon_simps = canon_riff_def length_le32 length_le16 length_tags

lemma canon_read_form:
  assumes "length payload \<le> dlen"
  shows "riff_read (canon_riff nch sw rate dlen payload 0) 4 =
           (WAVE_tag, canon_riff nch sw rate dlen payload 4)"
  using assms by (subst riff_read_inside) (simp_all add: canon_simps)

lemma canon_new_chunk_fmt:
  assumes "length payload \<le> dlen"
  shows "new_chunk (canon_riff nch sw rate dlen payload 4) =
     Inr (\<lparr>c_name = fmt_tag, c_size = 16, c_read = 0\<rparr>, canon_riff nch sw rate dlen payload 12)"
proof -
  have 1: "riff_read (canon_riff nch sw rate dlen payload 4) 4 =
      (fmt_tag, canon_riff nch sw rate dlen payload 8)"
    using assms by (subst riff_read_inside) (simp_all add: canon_simps)
  have 2: "riff_read (canon_riff nch sw rate dlen payload 8) 4 =
      (le32 16, canon_riff nch sw rate dlen payload 12)"
    using assms by (subst riff_read_inside) (simp_all add: canon_simps)
  show ?thesis by (simp add: new_chunk_def 1 2 length_tags length_le32 u_le_le32)
qed

lemma canon_read_fmt:
  assumes "0 < nch" "nch < 65536" "rate < 4294967296" "0 < sw" "sw \<le> 4"
    "length payload \<le> dlen"
  shows "read_fmt_chunk \<lparr>c_name = fmt_tag, c_size = 16, c_read = 0\<rparr>
           (canon_riff nch sw rate dlen payload 12) =
         Inr (\<lparr>f_nchannels = nch, f_framerate = rate, f_sampwidth = sw\<rparr>,
              \<lparr>c_name = fmt_tag, c_size = 16, c_read = 16\<rparr>,
              canon_riff nch sw rate dlen payload 28)"
proof -
  let ?b14 = "le16 1 @ le16 nch @ le32 rate @ le32 (nch * rate * sw) @ le16 (nch * sw)"
  have 1: "riff_read (canon_riff nch sw rate dlen payload 12) 14 =
      (?b14, canon_riff nch sw rate dlen payload 26)"
    using assms(6) by (subst riff_read_inside) (simp_all add: canon_simps)
  have 2: "riff_read (canon_riff nch sw rate dlen payload 26) 2 =
      (le16 (sw * 8), canon_riff nch sw rate dlen payload 28)"
    using assms(6) by (subst riff_read_inside) (simp_all add: canon_simps)
  have c1: "chunk_read \<lparr>c_name = fmt_tag, c_size = 16, c_read = 0\<rparr>
      (canon_riff nch sw rate dlen payload 12) 14
      = (?b14, \<lparr>c_name = fmt_tag, c_size = 16, c_read = 14\<rparr>,
         canon_riff nch sw rate dlen payload 26)"
    by (simp add: chunk_read_def 1 length_le16 length_le32)
  have c2: "chunk_read \<lparr>c_name = fmt_tag, c_size = 16, c_read = 14\<rparr>
      (canon_riff nch sw rate dlen payload 26) 2
      = (le16 (sw * 8), \<lparr>c_name = fmt_tag, c_size = 16, c_read = 16\<rparr>,
         canon_riff nch sw rate dlen payload 28)"
    by (simp add: chunk_read_def 2 length_le16 length_le32)
  from assms have sw8: "sw * 8 < 65536" "(sw * 8 + 7) div 8 = sw" by auto
  show ?thesis
    using assms(1-5) sw8
    by (simp add: read_fmt_chunk_def c1 c2 length_le16 length_le32 u_le_le16 u_le_le32)
qed

lemma canon_skip_fmt:
  "chunk_skip \<lparr>c_name = fmt_tag, c_size = 16, c_read = 16\<rparr>
     (canon_riff nch sw rate dlen payload 28) = Inr (canon_riff nch sw rate dlen payload 28)"
  by (simp add: chunk_skip_def riff_seek_cur_def canon_riff_def)

lemma canon_new_chunk_data:
  assumes "36 + dlen < 4294967296" "length payload \<le> dlen"
  shows "new_chunk (canon_riff nch sw rate dlen payload 28) =
     Inr (\<lparr>c_name = data_tag, c_size = dlen, c_read = 0\<rparr>,
          canon_riff nch sw rate dlen payload 36)"
proof -
  have 1: "riff_read (canon_riff nch sw rate dlen payload 28) 4 =
      (data_tag, canon_riff nch sw rate dlen payload 32)"
    using assms(2) by (subst riff_read_inside) (simp_all add: canon_simps)
  have 2: "riff_read (canon_riff nch sw rate dlen payload 32) 4 =
      (le32 dlen, canon_riff nch sw rate dlen payload 36)"
    using assms(2) by (subst riff_read_inside) (simp_all add: canon_simps)
  from assms(1) show ?thesis by (simp add: new_chunk_def 1 2 length_tags length_le32 u_le_le32)
qed

lemma canon_scan:
  assumes "0 < nch" "nch < 65536" "rate < 4294967296" "0 < sw" "sw \<le> 4"
    "length payload \<le> dlen" "36 + dlen < 4294967296"
  shows "scan_chunks None (canon_riff nch sw rate dlen payload 4) =
     Inr (Some \<lparr>f_nchannels = nch, f_framerate = rate, f_sampwidth = sw\<rparr>,
          Some (\<lparr>c_name = data_tag, c_size = dlen, c_read = 0\<rparr>,
                canon_riff nch sw rate dlen payload 36))"
proof -
  let ?f = "\<lparr>f_nchannels = nch, f_framerate = rate, f_sampwidth = sw\<rparr>"
  have 2: "scan_chunks (Some ?f) (canon_riff nch sw rate dlen payload 28) =
     Inr (Some ?f, Some (\<lparr>c_name = data_tag, c_size = dlen, c_read = 0\<rparr>,
                canon_riff nch sw rate dlen payload 36))"
    by (subst scan_chunks.simps) (simp add: canon_new_chunk_data[OF assms(7,6)] tags_distinct)
  show ?thesis
    by (subst scan_chunks.simps)
       (simp add: canon_new_chunk_fmt[OF assms(6)] canon_read_fmt[OF assms(1-6)]
          canon_skip_fmt 2)
qed

lemma wav_bytes_split:
  "take 4 (wav_bytes nch sw rate dlen payload) = RIFF_tag"
  "take 4 (drop 4 (wav_bytes nch sw rate dlen payload)) = le32 (36 + dlen)"
  "drop 8 (wav_bytes nch sw rate dlen payload) =
     WAVE_tag @ fmt_tag @ le32 16 @ le16 1 @ le16 nch
        @ le32 rate @ le32 (nch * rate * sw) @ le16 (nch * sw) @ le16 (sw * 8)
        @ data_tag @ le32 dlen @ payload"
  by (simp_all add: wav_bytes_def wav_header_def length_tags length_le32)

lemma initfp_steps:
  assumes "take 4 bs = RIFF_tag" "take 4 (drop 4 bs) = szb" "length szb = 4"
    "riff_read \<lparr>r_bytes = drop 8 bs, r_size = u_le szb, r_pos = 0\<rparr> 4 = (WAVE_tag, r1)"
    "scan_chunks None r1 = Inr (Some f, Some (c, r2))"
  shows "initfp bs = Inr \<lparr>rd_fmt = f, rd_data = c, rd_file = r2,
                          rd_nframes = c_size c div framesize f\<rparr>"
  using assms by (simp add: initfp_def length_tags)

lemma initfp_canon:
  assumes "0 < nch" "nch < 65536" "rate < 4294967296" "0 < sw" "sw \<le> 4"
    "length payload \<le> dlen" "36 + dlen < 4294967296"
  shows "initfp (wav_bytes nch sw rate dlen payload) =
           Inr (canon_reader nch sw rate dlen payload)"
proof -
  let ?bs = "wav_bytes nch sw rate dlen payload"
  have u: "u_le (le32 (36 + dlen)) = 36 + dlen"
    using assms(7) by (rule u_le_le32)
  have r0: "\<lparr>r_bytes = drop 8 ?bs, r_size = u_le (le32 (36 + dlen)), r_pos = 0\<rparr>
      = canon_riff nch sw rate dlen payload 0"
    unfolding u wav_bytes_split canon_riff_def ..
  have 4: "riff_read \<lparr>r_bytes = drop 8 ?bs, r_size = u_le (le32 (36 + dlen)),
      r_pos = 0\<rparr> 4 = (WAVE_tag, canon_riff nch sw rate dlen payload 4)"
    unfolding r0 using assms(6) by (rule canon_read_form)
  from initfp_steps[OF wav_bytes_split(1) wav_bytes_split(2) length_le32 4 canon_scan[OF assms]]
  show ?thesis by (simp add: framesize_def canon_reader_def)
qed

lemma riff_read_zero: "riff_read r 0 = (d, r') \<Longrightarrow> d = []"
  by (auto simp: riff_read_def Let_def split: if_splits)

lemma chunk_read_zero: "fst (chunk_read c r 0) = []"
proof (cases "riff_read r 0")
  case (Pair d r1)
  from riff_read_zero[OF Pair] have d: "d = []" .
  obtain d2 r2 where 2: "riff_read r1 (Suc 0) = (d2, r2)" by (cases "riff_read r1 (Suc 0)")
  show ?thesis by (simp add: chunk_read_def Let_def Pair d 2)
qed

lemma readframes_canon:
  assumes "length payload \<le> nf * (nch * sw)" "nf * (nch * sw) \<le> dlen"
  shows "readframes (canon_reader nch sw rate dlen payload) (int nf) = payload"
proof (cases "nf * (nch * sw) = 0")
  case True
  with assms(1) have p: "payload = []" by simp
  have "readframes (canon_reader nch sw rate dlen payload) (int nf) =
     (if nf = 0 then []
      else fst (chunk_read (rd_data (canon_reader nch sw rate dlen payload))
                  (rd_file (canon_reader nch sw rate dlen payload)) (nf * (nch * sw))))"
    by (simp add: readframes_def canon_reader_def framesize_def)
  also have "\<dots> = []" unfolding True by (simp add: chunk_read_zero)
  finally show ?thesis using p by simp
next
  case False
  then have nf: "nf \<noteq> 0" by auto
  from False have "0 < nf * (nch * sw)" by (rule neq0_conv[THEN iffD1])
  then have d: "0 < dlen" using assms(2) by (rule less_le_trans)
  let ?q = "nf * (nch * sw)"
  have m: "min ?q dlen = ?q" using assms(2) by simp
  have 1: "riff_read (canon_riff nch sw rate dlen payload 36) ?q
      = (payload, canon_riff nch sw rate dlen payload (36 + length payload))"
    using assms d by (subst riff_read_inside) (simp_all add: canon_simps)
  show ?thesis
    using nf d
    by (simp add: readframes_def canon_reader_def chunk_read_def framesize_def m 1 Let_def
        split: prod.splits)
qed

section \<open>The writer on representable parameters\<close>

lemma nat_36: "nat (36 + int k) = 36 + k"
  by simp

lemma nat_prod3: "nat (int a * int b * int c) = a * b * c"
  by (simp add: nat_mult_distrib)

lemma nat_prod2: "nat (int a * int b) = a * b"
  by (simp add: nat_mult_distrib)

lemma in_L_int: "in_L (int k) \<longleftrightarrow> k < 4294967296"
  by (auto simp: in_L_def)

lemma in_H_int: "in_H (int k) \<longleftrightarrow> k < 65536"
  by (auto simp: in_H_def)

lemma pack_header_ok:
  assumes "36 + dl < 4294967296" "n * r * s < 4294967296" "n * s < 65536"
    "0 < n" "0 < s" "s \<le> 4"
  shows "pack_header (int dl) (int n) (int r) (int s) =
     Inr (le32 (36 + dl) @ WAVE_tag @ fmt_tag @ le32 16 @ le16 1 @ le16 n @ le32 r
          @ le32 (n * r * s) @ le16 (n * s) @ le16 (s * 8) @ data_tag)"
proof -
  have a: "in_L (36 + int dl)" using assms(1) by (simp add: in_L_def)
  have ns: "0 < n * s" using assms(4,5) by simp
  have "n \<le> n * s" using assms(5) by (cases s) simp_all
  then have n: "n < 65536" using assms(3) by (rule le_less_trans)
  then have b: "in_H (int n)" by (simp add: in_H_int)
  have "r \<le> r * (n * s)" using ns by (cases "n * s") simp_all
  also have "r * (n * s) = n * r * s" by (simp add: mult_ac)
  finally have r: "r < 4294967296" using assms(2) by (rule le_less_trans)
  then have c: "in_L (int r)" by (simp add: in_L_int)
  have "in_L (int (n * r * s))" using assms(2) by (simp only: in_L_int)
  then have d: "in_L (int n * int r * int s)" by simp
  have "in_H (int (n * s))" using assms(3) by (simp only: in_H_int)
  then have e: "in_H (int n * int s)" by simp
  have f: "in_H (int s * 8)" using assms(6) by (simp add: in_H_def)
  have g: "nat (int s * 8) = s * 8" by simp
  have h: "in_L 16" "in_H 1" by (simp_all add: in_L_def in_H_def)
  have fe: "first_error [Field_L (36 + int dl), Field_L 16, Field_H 1, Field_H (int n),
      Field_L (int r), Field_L (int n * int r * int s), Field_H (int n * int s),
      Field_H (int s * 8)] = None"
    by (simp only: first_error.simps field_error.simps a b c d e f h if_True option.case)
  show ?thesis
    unfolding pack_header_def fe
    by (simp only: option.case nat_36 nat_prod3 nat_prod2 nat_int g)
qed

lemma setparams_ok:
  assumes "0 < n" "0 < s" "s \<le> 4" "0 < r"
  shows "setparams new_writer (int n, int s, int r, int nf, ''NONE'', cn)
           = (None, set_writer n s r nf)"
  using assms by (simp add: setparams_def new_writer_def set_writer_def)

lemma write_header_ok:
  assumes "36 + length data < 4294967296" "n * r * s < 4294967296" "n * s < 65536"
    "0 < n" "0 < s" "s \<le> 4" "length data = nf * (n * s)"
  shows "write_header (set_writer n s r nf) (int (length data)) =
     (None, (set_writer n s r nf)\<lparr>wr_datalength := int (length data),
        wr_headerwritten := True, wr_file := wav_header n s r (length data)\<rparr>)"
proof -
  have dl: "int nf * int n * int s = int (length data)"
    using assms(7) by (simp add: mult.assoc)
  have sl: "struct_L (int (length data)) = Inr (le32 (length data))"
    using assms(1) by (simp add: struct_L_def in_L_def)
  note ph = pack_header_ok[OF assms(1-6)]
  show ?thesis
  proof (cases "nf = 0")
    case False
    then show ?thesis
      by (simp add: write_header_def set_writer_def Let_def dl sl ph wav_header_def)
  next
    case True
    with assms(7) have d0: "length data = 0" by simp
    from True d0 sl ph show ?thesis
      by (simp add: write_header_def set_writer_def Let_def wav_header_def)
  qed
qed

lemma writeframes_ok:
  assumes "36 + length data < 4294967296" "n * r * s < 4294967296" "n * s < 65536"
    "0 < n" "0 < s" "s \<le> 4" "0 < r" "length data = nf * (n * s)"
  shows "writeframes (set_writer n s r nf) data = (None, done_writer n s r nf data)"
proof -
  have e: "ensure_header_written (set_writer n s r nf) (int (length data)) =
     (None, (set_writer n s r nf)\<lparr>wr_datalength := int (length data),
        wr_headerwritten := True, wr_file := wav_header n s r (length data)\<rparr>)"
    using assms(4,5,7) write_header_ok[OF assms(1-6) assms(8)]
    by (simp add: ensure_header_written_def set_writer_def)
  show ?thesis
    unfolding writeframes_def writeframesraw_def e
    by (simp add: set_writer_def done_writer_def wav_bytes_def)
qed

lemma close_done: "close_writer (done_writer n s r nf data) = (None, done_writer n s r nf data)"
  by (simp add: close_writer_def ensure_header_written_def done_writer_def)

lemma with_out_wav_ok:
  assumes "36 + length data < 4294967296" "n * r * s < 4294967296" "n * s < 65536"
    "0 < n" "0 < s" "s \<le> 4" "0 < r" "length data = nf * (n * s)"
    "readframes rd (int nf) = data"
  shows "with_out_wav rd (int n, int s, int r, int nf, ''NONE'', cn)
           = (None, wav_bytes n s r (length data) data)"
proof -
  have b: "out_body new_writer rd (int n, int s, int r, int nf, ''NONE'', cn)
      = (None, done_writer n s r nf data)"
    using assms(9) setparams_ok[OF assms(4-7)] writeframes_ok[OF assms(1-8)]
    by (simp add: out_body_def)
  show ?thesis
    unfolding with_out_wav_def b
    by (simp add: close_done, simp add: done_writer_def)
qed

section \<open>The run on a readable input with a directory part\<close>

lemma try_block_ok:
  assumes f: "files w (dir @ rest) = Some bs" and i: "initfp bs = Inr rd"
    and d: "dir \<noteq> []" "is_sep (last dir)" "\<forall>c \<in> set rest. \<not> is_sep c"
    and fm: "rd_fmt rd = \<lparr>f_nchannels = n, f_framerate = old, f_sampwidth = s\<rparr>"
    and fr: "readframes rd (int (rd_nframes rd)) = data" "length data = rd_nframes rd * (n * s)"
    and rep: "36 + length data < 4294967296" "n * r * s < 4294967296" "n * s < 65536"
      "0 < n" "0 < s" "s \<le> 4" "0 < r"
    and wr: "output_path dir rest (int old) (int r) \<notin> write_denied w"
  shows "try_block w (dir @ rest) (int r) =
     (w\<lparr>files := (files w)(output_path dir rest (int old) (int r)
            \<mapsto> wav_bytes n s r (length data) data)\<rparr>,
      Inr (int old, output_path dir rest (int old) (int r)))"
proof -
  have o: "wave_open_rb w (dir @ rest) = Inr rd"
    using f i by (simp add: wave_open_rb_def open_rb_def)
  have g: "getparams rd = (int n, int s, int old, int (rd_nframes rd), ''NONE'', ''not compressed'')"
    using fm by (simp add: getparams_def)
  have p: "get_path_name (dir @ rest) = (Some dir, take (length rest - 4) rest)"
    using d by (rule get_path_name_dir)
  have ow: "open_wb w (output_path dir rest (int old) (int r)) =
      Inr (w\<lparr>files := (files w)(output_path dir rest (int old) (int r) \<mapsto> [])\<rparr>)"
    using wr by (simp add: open_wb_def)
  note wo = with_out_wav_ok[OF rep fr(2) fr(1), of "''not compressed''"]
  show ?thesis
    by (simp add: try_block_def o g p ow[unfolded output_path_def] wo output_path_def Let_def)
qed

lemma change_sample_rate_ok:
  assumes f: "files w (dir @ rest) = Some bs" and i: "initfp bs = Inr rd"
    and d: "dir \<noteq> []" "is_sep (last dir)" "\<forall>c \<in> set rest. \<not> is_sep c"
    and fm: "rd_fmt rd = \<lparr>f_nchannels = n, f_framerate = old, f_sampwidth = s\<rparr>"
    and fr: "readframes rd (int (rd_nframes rd)) = data" "length data = rd_nframes rd * (n * s)"
    and rep: "36 + length data < 4294967296" "n * r * s < 4294967296" "n * s < 65536"
      "0 < n" "0 < s" "s \<le> 4" "0 < r"
    and wr: "output_path dir rest (int old) (int r) \<notin> write_denied w"
  shows "change_sample_rate w (dir @ rest) (int r) =
     (w\<lparr>files := (files w)(output_path dir rest (int old) (int r)
            \<mapsto> wav_bytes n s r (length data) data)\<rparr>,
      ''Sample rate changed from '' @ str_int (int old) @ '' Hz to '' @ str_int (int r)
        @ '' Hz and saved as '' @ output_path dir rest (int old) (int r))"
  by (simp add: change_sample_rate_def try_block_ok[OF assms])

section \<open>What a successful open guarantees\<close>

lemma read_fmt_chunk_pos:
  "read_fmt_chunk c r = Inr (f, c', r') \<Longrightarrow> 0 < f_nchannels f \<and> 0 < f_sampwidth f"
  by (auto simp: read_fmt_chunk_def Let_def split: prod.splits if_splits)

lemma scan_chunks_pos:
  "scan_chunks fm r = Inr (Some f, x) \<Longrightarrow>
   (\<forall>f0. fm = Some f0 \<longrightarrow> 0 < f_nchannels f0 \<and> 0 < f_sampwidth f0) \<Longrightarrow>
   0 < f_nchannels f \<and> 0 < f_sampwidth f"
proof (induction fm r rule: scan_chunks.induct)
  case (1 fm r)
  note u = "1.prems"(1)[unfolded scan_chunks.simps[of fm r]]
  show ?case
  proof (cases "new_chunk r")
    case (Inl e)
    with u have "fm = Some f" by simp
    with "1.prems"(2) show ?thesis by simp
  next
    case (Inr b)
    obtain c r1 where b: "(c, r1) = b" by (cases b) auto
    show ?thesis
    proof (cases "c_name c = fmt_tag")
      case True
      from u Inr b[symmetric] True obtain f1 c2 r2 r3 where
        rf: "read_fmt_chunk c r1 = Inr (f1, c2, r2)" and sk: "chunk_skip c2 r2 = Inr r3"
        and rec: "scan_chunks (Some f1) r3 = Inr (Some f, x)"
        by (auto split: sum.splits prod.splits)
      from read_fmt_chunk_pos[OF rf]
      have g: "\<forall>f0. Some f1 = Some f0 \<longrightarrow> 0 < f_nchannels f0 \<and> 0 < f_sampwidth f0" by simp
      from "1.IH"(1)[OF Inr b True rf refl refl sk rec g] show ?thesis .
    next
      case False
      show ?thesis
      proof (cases "c_name c = data_tag")
        case True
        with u Inr b[symmetric] False have "fm = Some f"
          by (auto split: option.splits)
        with "1.prems"(2) show ?thesis by simp
      next
        case nd: False
        from u Inr b[symmetric] False nd obtain r3 where
          sk: "chunk_skip c r1 = Inr r3" and rec: "scan_chunks fm r3 = Inr (Some f, x)"
          by (auto split: sum.splits)
        from "1.IH"(2)[OF Inr b False nd sk rec "1.prems"(2)] show ?thesis .
      qed
    qed
  qed
qed

lemma initfp_pos:
  assumes "initfp bs = Inr rd"
  shows "0 < f_nchannels (rd_fmt rd) \<and> 0 < f_sampwidth (rd_fmt rd)"
proof -
  from assms obtain r1 f c r2 where
    s: "scan_chunks None r1 = Inr (Some f, Some (c, r2))" and f: "rd_fmt rd = f"
    by (auto simp: initfp_def Let_def split: if_splits prod.splits sum.splits option.splits)
  from scan_chunks_pos[OF s] f show ?thesis by simp
qed

section \<open>The output file read back\<close>

lemma fits_channels:
  assumes "n * s < 65536" "0 < s"
  shows "n < (65536::nat)"
proof -
  have "n \<le> n * s" using assms(2) by (cases s) simp_all
  then show ?thesis using assms(1) by (rule le_less_trans)
qed

lemma fits_rate:
  assumes "n * r * s < 4294967296" "0 < n" "0 < s"
  shows "r < (4294967296::nat)"
proof -
  have ns: "0 < n * s" using assms(2,3) by simp
  have "r \<le> r * (n * s)" using ns by (cases "n * s") simp_all
  also have "r * (n * s) = n * r * s" by (simp add: mult_ac)
  finally show ?thesis using assms(1) by (rule le_less_trans)
qed

lemma initfp_output:
  assumes "36 + length data < 4294967296" "n * r * s < 4294967296" "n * s < 65536"
    "0 < n" "0 < s" "s \<le> 4"
  shows "initfp (wav_bytes n s r (length data) data) =
           Inr (canon_reader n s r (length data) data)"
  using assms(4) fits_channels[OF assms(3,5)] fits_rate[OF assms(2,4,5)] assms(5,6) le_refl
    assms(1)
  by (rule initfp_canon)

lemma params_of_output:
  assumes "36 + length data < 4294967296" "n * r * s < 4294967296" "n * s < 65536"
    "0 < n" "0 < s" "s \<le> 4" "length data = nf * (n * s)"
  shows "params_of (wav_bytes n s r (length data) data) =
           Inr (int n, int s, int r, int nf, ''NONE'', ''not compressed'')"
proof -
  have "length data div (n * s) = nf" using assms(4,5,7) by simp
  then show ?thesis
    by (simp add: params_of_def initfp_output[OF assms(1-6)] getparams_def canon_reader_def)
qed

lemma frames_of_output:
  assumes "36 + length data < 4294967296" "n * r * s < 4294967296" "n * s < 65536"
    "0 < n" "0 < s" "s \<le> 4" "length data = nf * (n * s)"
  shows "frames_of (wav_bytes n s r (length data) data) = Inr data"
proof -
  have nf: "length data div (n * s) = nf" using assms(4,5,7) by simp
  have "rd_nframes (canon_reader n s r (length data) data) = nf"
    by (simp add: canon_reader_def nf)
  moreover have "readframes (canon_reader n s r (length data) data) (int nf) = data"
    using assms(7) by (intro readframes_canon) simp_all
  ultimately show ?thesis
    by (simp add: frames_of_def initfp_output[OF assms(1-6)])
qed

lemma drop_header: "drop 44 (wav_bytes n s r dlen data) = data"
  by (simp add: wav_bytes_def wav_header_def length_tags length_le32 length_le16)

lemma rate_field: "take 4 (drop 24 (wav_bytes n s r dlen data)) = le32 r"
  by (simp add: wav_bytes_def wav_header_def length_tags length_le32 length_le16)

text \<open>
  The run on an input that the library reads completely, named by a path with a directory
  part, for a new rate that the header can hold.
\<close>

lemma run_ok:
  assumes f: "files w (dir @ rest) = Some bs" and i: "initfp bs = Inr rd"
    and g: "getparams rd = (int n, int s, int old, int nf, ct, cn)"
    and l: "length (readframes rd (int nf)) = nf * (n * s)"
    and d: "dir \<noteq> []" "is_sep (last dir)" "\<forall>c \<in> set rest. \<not> is_sep c"
    and wr: "output_path dir rest (int old) (int r) \<notin> write_denied w"
    and rep: "s \<le> 4" "0 < r" "n * r * s < 4294967296" "n * s < 65536"
      "36 + nf * (n * s) < 4294967296"
  shows "change_sample_rate w (dir @ rest) (int r) =
     (w\<lparr>files := (files w)(output_path dir rest (int old) (int r)
            \<mapsto> wav_bytes n s r (nf * (n * s)) (readframes rd (int nf)))\<rparr>,
      ''Sample rate changed from '' @ str_int (int old) @ '' Hz to '' @ str_int (int r)
        @ '' Hz and saved as '' @ output_path dir rest (int old) (int r))
     \<and> 0 < n \<and> 0 < s \<and> frames_of bs = Inr (readframes rd (int nf))
     \<and> params_of bs = Inr (int n, int s, int old, int nf, ct, cn)"
proof -
  from g have fm: "rd_fmt rd = \<lparr>f_nchannels = n, f_framerate = old, f_sampwidth = s\<rparr>"
    and nf: "rd_nframes rd = nf"
    by (simp_all add: getparams_def)
  from initfp_pos[OF i] fm have pos: "0 < n" "0 < s" by simp_all
  let ?data = "readframes rd (int nf)"
  have fr: "readframes rd (int (rd_nframes rd)) = ?data" by (simp add: nf)
  have ln: "length ?data = rd_nframes rd * (n * s)" using l nf by simp
  have dl: "36 + length ?data < 4294967296" using rep(5) l by simp
  from change_sample_rate_ok[OF f i d fm fr ln dl rep(3) rep(4) pos rep(1) rep(2) wr]
  have "change_sample_rate w (dir @ rest) (int r) =
     (w\<lparr>files := (files w)(output_path dir rest (int old) (int r)
            \<mapsto> wav_bytes n s r (nf * (n * s)) ?data)\<rparr>,
      ''Sample rate changed from '' @ str_int (int old) @ '' Hz to '' @ str_int (int r)
        @ '' Hz and saved as '' @ output_path dir rest (int old) (int r))"
    by (simp add: l)
  moreover have "frames_of bs = Inr ?data" by (simp add: frames_of_def i nf)
  moreover have "params_of bs = Inr (int n, int s, int old, int nf, ct, cn)"
    by (simp add: params_of_def i g)
  ultimately show ?thesis using pos by simp
qed

section \<open>Claims C1, C2 and C3: what the output file holds\<close>

text \<open>
  Claim C1, as amended. The input is a file that the library opens and whose frames are
  all there (\<open>frame count * channels * width\<close> bytes), with a sample width of at most 4
  bytes; it is named by a path with a directory part, and the output path can be written.
  The new rate is positive and the header can hold it together with the byte rate
  \<open>channels * rate * width\<close> (32 bits), the block size (16 bits) and the data size. Then
  the output file exists and its frame bytes are those of the input: they are what follows
  its 44-byte header, and what the library reads back from it.
\<close>

theorem frames_copied:
  assumes "files w (dir @ rest) = Some bs" "initfp bs = Inr rd"
    "getparams rd = (int n, int s, int old, int nf, ct, cn)"
    "length (readframes rd (int nf)) = nf * (n * s)"
    "dir \<noteq> []" "is_sep (last dir)" "\<forall>c \<in> set rest. \<not> is_sep c"
    "output_path dir rest (int old) (int r) \<notin> write_denied w"
    "s \<le> 4" "0 < r" "n * r * s < 4294967296" "n * s < 65536"
    "36 + nf * (n * s) < 4294967296"
  shows "\<exists>out. files (fst (change_sample_rate w (dir @ rest) (int r)))
                 (output_path dir rest (int old) (int r)) = Some out
           \<and> frames_of out = frames_of bs
           \<and> drop 44 out = readframes rd (int nf)"
proof -
  note ok = run_ok[OF assms]
  let ?data = "readframes rd (int nf)"
  have dl: "36 + length ?data < 4294967296" using assms(4,13) by simp
  from ok have pos: "0 < n" "0 < s" by simp_all
  have "frames_of (wav_bytes n s r (length ?data) ?data) = Inr ?data"
    using dl assms(11,12) pos assms(9) assms(4) by (rule frames_of_output)
  then have "frames_of (wav_bytes n s r (nf * (n * s)) ?data) = frames_of bs"
    using ok assms(4) by simp
  then show ?thesis using ok by (simp add: drop_header)
qed

text \<open>
  Claim C2, as amended. Under the same conditions the sample rate of the output file is the
  new rate: bytes 24 to 27 of the file are its little-endian encoding, and it is the rate
  that the library reads back.
\<close>

theorem rate_substituted:
  assumes "files w (dir @ rest) = Some bs" "initfp bs = Inr rd"
    "getparams rd = (int n, int s, int old, int nf, ct, cn)"
    "length (readframes rd (int nf)) = nf * (n * s)"
    "dir \<noteq> []" "is_sep (last dir)" "\<forall>c \<in> set rest. \<not> is_sep c"
    "output_path dir rest (int old) (int r) \<notin> write_denied w"
    "s \<le> 4" "0 < r" "n * r * s < 4294967296" "n * s < 65536"
    "36 + nf * (n * s) < 4294967296"
  shows "\<exists>out. files (fst (change_sample_rate w (dir @ rest) (int r)))
                 (output_path dir rest (int old) (int r)) = Some out
           \<and> rate_of out = Inr (int r)
           \<and> take 4 (drop 24 out) = le32 r"
proof -
  note ok = run_ok[OF assms]
  let ?data = "readframes rd (int nf)"
  have dl: "36 + length ?data < 4294967296" using assms(4,13) by simp
  from ok have pos: "0 < n" "0 < s" by simp_all
  have "params_of (wav_bytes n s r (length ?data) ?data) =
      Inr (int n, int s, int r, int nf, ''NONE'', ''not compressed'')"
    using dl assms(11,12) pos assms(9) assms(4) by (rule params_of_output)
  then have "rate_of (wav_bytes n s r (nf * (n * s)) ?data) = Inr (int r)"
    using assms(4) by (simp add: rate_of_def)
  then show ?thesis using ok by (simp add: rate_field)
qed

text \<open>
  Claim C3, as amended. Under the same conditions the channel count, the sample width and
  the frame count of the output file are those of the input file.
\<close>

theorem other_fields_kept:
  assumes "files w (dir @ rest) = Some bs" "initfp bs = Inr rd"
    "getparams rd = (int n, int s, int old, int nf, ct, cn)"
    "length (readframes rd (int nf)) = nf * (n * s)"
    "dir \<noteq> []" "is_sep (last dir)" "\<forall>c \<in> set rest. \<not> is_sep c"
    "output_path dir rest (int old) (int r) \<notin> write_denied w"
    "s \<le> 4" "0 < r" "n * r * s < 4294967296" "n * s < 65536"
    "36 + nf * (n * s) < 4294967296"
  shows "\<exists>out. files (fst (change_sample_rate w (dir @ rest) (int r)))
                 (output_path dir rest (int old) (int r)) = Some out
           \<and> other_fields_of out = other_fields_of bs
           \<and> other_fields_of out = Inr (int n, int s, int nf)"
proof -
  note ok = run_ok[OF assms]
  let ?data = "readframes rd (int nf)"
  have dl: "36 + length ?data < 4294967296" using assms(4,13) by simp
  from ok have pos: "0 < n" "0 < s" by simp_all
  have "params_of (wav_bytes n s r (length ?data) ?data) =
      Inr (int n, int s, int r, int nf, ''NONE'', ''not compressed'')"
    using dl assms(11,12) pos assms(9) assms(4) by (rule params_of_output)
  then have "other_fields_of (wav_bytes n s r (nf * (n * s)) ?data) = Inr (int n, int s, int nf)"
    using assms(4) by (simp add: other_fields_of_def)
  moreover have "other_fields_of bs = Inr (int n, int s, int nf)"
    using ok by (simp add: other_fields_of_def)
  ultimately show ?thesis using ok by simp
qed

section \<open>The run in general, for a path with a directory part\<close>

lemma try_block_dir:
  assumes f: "files w (dir @ rest) = Some bs" and i: "initfp bs = Inr rd"
    and g: "getparams rd = (nc, sw, old, nf, ct, cn)"
    and d: "dir \<noteq> []" "is_sep (last dir)" "\<forall>c \<in> set rest. \<not> is_sep c"
    and wr: "output_path dir rest old new \<notin> write_denied w"
    and wo: "with_out_wav rd (nc, sw, new, nf, ct, cn) = (raised, content)"
  shows "try_block w (dir @ rest) new =
     (w\<lparr>files := (files w)(output_path dir rest old new \<mapsto> content)\<rparr>,
      case raised of Some e \<Rightarrow> Inl e | None \<Rightarrow> Inr (old, output_path dir rest old new))"
proof -
  have o: "wave_open_rb w (dir @ rest) = Inr rd"
    using f i by (simp add: wave_open_rb_def open_rb_def)
  have p: "get_path_name (dir @ rest) = (Some dir, take (length rest - 4) rest)"
    using d by (rule get_path_name_dir)
  have ow: "open_wb w (output_path dir rest old new) =
      Inr (w\<lparr>files := (files w)(output_path dir rest old new \<mapsto> [])\<rparr>)"
    using wr by (simp add: open_wb_def)
  show ?thesis
    by (simp add: try_block_def o g p ow[unfolded output_path_def] wo output_path_def Let_def
        split: option.splits)
qed

lemma try_block_no_dir:
  assumes "files w p = Some bs" "initfp bs = Inr rd" "\<forall>c \<in> set p. \<not> is_sep c"
  shows "try_block w p new = (w, Inl (TypeError none_plus_str))"
proof -
  have o: "wave_open_rb w p = Inr rd"
    using assms(1,2) by (simp add: wave_open_rb_def open_rb_def)
  have g: "get_path_name p = (None, take (length p - 4) p)"
    using assms(3) by (intro get_path_name_nosep no_sep_last_sep)
  show ?thesis
    by (simp add: try_block_def o g Let_def split: prod.splits)
qed

lemma try_block_unreadable:
  assumes "files w p = Some bs" "initfp bs = Inl e"
  shows "try_block w p new = (w, Inl e)"
  using assms by (simp add: try_block_def wave_open_rb_def open_rb_def)

lemma try_block_missing:
  assumes "files w p = None"
  shows "try_block w p new = (w, Inl (FileNotFoundError p))"
  using assms by (simp add: try_block_def wave_open_rb_def open_rb_def)

section \<open>The example files\<close>

lemma ex_len: "length example_payload = 2000"
  by (simp add: example_payload_def)

lemma ex_init: "initfp example_wav = Inr (canon_reader 1 2 48000 2000 example_payload)"
  unfolding example_wav_def by (rule initfp_canon) (simp_all add: ex_len)

lemma ex_params:
  "getparams (canon_reader 1 2 48000 2000 example_payload) =
     (int 1, int 2, int 48000, int 1000, ''NONE'', ''not compressed'')"
  by (simp add: getparams_def canon_reader_def)

lemma ex_frames:
  "readframes (canon_reader 1 2 48000 2000 example_payload) (int 1000) = example_payload"
  by (rule readframes_canon) (simp_all add: ex_len)

lemma ex_frames_len:
  "length (readframes (canon_reader 1 2 48000 2000 example_payload) (int 1000)) = 1000 * (1 * 2)"
  by (simp only: ex_frames ex_len)

lemma ex_file: "files example_world (''/home/folder/'' @ ''input.wav'') = Some example_wav"
  by (simp add: example_world_def)

lemma ex_dir:
  "''/home/folder/'' \<noteq> []" "is_sep (last ''/home/folder/'')"
  "\<forall>c \<in> set ''input.wav''. \<not> is_sep c"
  by (simp_all add: is_sep_def slash_def backslash_def)

lemma ex_wr: "p \<notin> write_denied example_world"
  by (simp add: example_world_def)

lemma ex_out:
  "output_path ''/home/folder/'' ''input.wav'' 48000 50400 =
     ''/home/folder/input--sample_rate_changed__48000_to_50400.wav''"
  by (simp add: output_path_def suffix_name_def str_int_def str_nat.simps digit_char_def)

lemma ex_out_big:
  "output_path ''/home/folder/'' ''input.wav'' 48000 3000000000 =
     ''/home/folder/input--sample_rate_changed__48000_to_3000000000.wav''"
  by (simp add: output_path_def suffix_name_def str_int_def str_nat.simps digit_char_def)

lemma ex_arith:
  "(2::nat) \<le> 4" "0 < (50400::nat)" "(1::nat) * 50400 * 2 < 4294967296"
  "(1::nat) * 2 < 65536" "36 + (1000::nat) * (1 * 2) < 4294967296"
  by simp_all

lemma ramp_len: "length ramp_payload = 8"
  by (simp add: ramp_payload_def)

lemma ramp_init: "initfp ramp_wav = Inr (canon_reader 1 2 44100 8 ramp_payload)"
  unfolding ramp_wav_def by (rule initfp_canon) (simp_all add: ramp_len)

lemma ramp_params:
  "getparams (canon_reader 1 2 44100 8 ramp_payload) =
     (int 1, int 2, int 44100, int 4, ''NONE'', ''not compressed'')"
  by (simp add: getparams_def canon_reader_def)

lemma ramp_frames:
  "readframes (canon_reader 1 2 44100 8 ramp_payload) (int 4) = ramp_payload"
  by (rule readframes_canon) (simp_all add: ramp_len)

lemma ramp_frames_len:
  "length (readframes (canon_reader 1 2 44100 8 ramp_payload) (int 4)) = 4 * (1 * 2)"
  by (simp only: ramp_frames ramp_len)

lemma ramp_file: "files ramp_world (''/music/'' @ ''ramp.wav'') = Some ramp_wav"
  by (simp add: ramp_world_def)

lemma ramp_dir:
  "''/music/'' \<noteq> []" "is_sep (last ''/music/'')" "\<forall>c \<in> set ''ramp.wav''. \<not> is_sep c"
  by (simp_all add: is_sep_def slash_def backslash_def)

lemma ramp_wr: "p \<notin> write_denied ramp_world"
  by (simp add: ramp_world_def)

lemma ramp_out:
  "output_path ''/music/'' ''ramp.wav'' 44100 48000 =
     ''/music/ramp--sample_rate_changed__44100_to_48000.wav''"
  by (simp add: output_path_def suffix_name_def str_int_def str_nat.simps digit_char_def)

lemma ramp_arith:
  "(2::nat) \<le> 4" "0 < (48000::nat)" "(1::nat) * 48000 * 2 < 4294967296"
  "(1::nat) * 2 < 65536" "36 + (4::nat) * (1 * 2) < 4294967296"
  by simp_all

theorem frames_copied_witness:
  "\<exists>out. files (fst (change_sample_rate ramp_world ''/music/ramp.wav'' 48000))
            ''/music/ramp--sample_rate_changed__44100_to_48000.wav'' = Some out
         \<and> frames_of out = frames_of ramp_wav
         \<and> drop 44 out = [0x01, 0x23, 0x45, 0x67, 0x89, 0xAB, 0xCD, 0xEF]"
  using frames_copied[OF ramp_file ramp_init ramp_params ramp_frames_len ramp_dir ramp_wr
      ramp_arith]
  by (simp add: ramp_out ramp_frames[simplified] ramp_payload_def[symmetric])

theorem rate_substituted_witness:
  "\<exists>out. files (fst (change_sample_rate example_world ''/home/folder/input.wav'' 50400))
            ''/home/folder/input--sample_rate_changed__48000_to_50400.wav'' = Some out
         \<and> rate_of out = Inr 50400 \<and> take 4 (drop 24 out) = le32 50400"
  using rate_substituted[OF ex_file ex_init ex_params ex_frames_len ex_dir ex_wr ex_arith]
  by (simp add: ex_out)

theorem other_fields_kept_witness:
  "\<exists>out. files (fst (change_sample_rate example_world ''/home/folder/input.wav'' 50400))
            ''/home/folder/input--sample_rate_changed__48000_to_50400.wav'' = Some out
         \<and> other_fields_of out = other_fields_of example_wav
         \<and> other_fields_of out = Inr (1, 2, 1000)"
  using other_fields_kept[OF ex_file ex_init ex_params ex_frames_len ex_dir ex_wr ex_arith]
  by (simp add: ex_out)

section \<open>A rate that the header cannot hold\<close>

text \<open>
  At 3000000000 Hz the byte rate of the mono 16-bit file is 6000000000, beyond 32 bits:
  \<^verbatim>\<open>struct.pack\<close> raises in \<^verbatim>\<open>writeframes\<close> and again in \<^verbatim>\<open>close\<close>, each time after
  \<^verbatim>\<open>RIFF\<close> has been written.
\<close>

lemma overflow_with_out_wav:
  "with_out_wav rd (int 1, int 2, 3000000000, int 1000, ''NONE'', cn) =
     (Some (StructError L_range_message), RIFF_tag @ RIFF_tag)"
  by (simp add: with_out_wav_def out_body_def setparams_def new_writer_def writeframes_def
      writeframesraw_def ensure_header_written_def write_header_def pack_header_def
      in_L_def in_H_def close_writer_def Let_def)

lemma overflow_run:
  "change_sample_rate example_world ''/home/folder/input.wav'' 3000000000 =
     (example_world\<lparr>files := (files example_world)
        (''/home/folder/input--sample_rate_changed__48000_to_3000000000.wav''
           \<mapsto> RIFF_tag @ RIFF_tag)\<rparr>,
      ''Error: '' @ L_range_message)"
  using try_block_dir[OF ex_file ex_init ex_params ex_dir ex_wr overflow_with_out_wav]
  by (simp add: change_sample_rate_def ex_out_big)

lemma initfp_riff_riff: "initfp (RIFF_tag @ RIFF_tag) = Inl (WaveError ''not a WAVE file'')"
  by (simp add: initfp_def RIFF_tag_def WAVE_tag_def riff_read_def Let_def)

lemma frames_of_example: "frames_of example_wav = Inr example_payload"
proof -
  have n: "rd_nframes (canon_reader 1 2 48000 2000 example_payload) = 1000"
    by (simp add: canon_reader_def)
  show ?thesis
    unfolding frames_of_def ex_init by (simp only: n ex_frames sum.case)
qed

theorem frames_copied_counterexample:
  "files (fst (change_sample_rate example_world ''/home/folder/input.wav'' 3000000000))
     ''/home/folder/input--sample_rate_changed__48000_to_3000000000.wav''
     = Some (RIFF_tag @ RIFF_tag)
   \<and> frames_of (RIFF_tag @ RIFF_tag) = Inl (WaveError ''not a WAVE file'')
   \<and> frames_of example_wav = Inr example_payload"
  by (simp add: overflow_run frames_of_def initfp_riff_riff frames_of_example[unfolded frames_of_def])

theorem rate_substituted_counterexample:
  "files (fst (change_sample_rate example_world ''/home/folder/input.wav'' 3000000000))
     ''/home/folder/input--sample_rate_changed__48000_to_3000000000.wav''
     = Some (RIFF_tag @ RIFF_tag)
   \<and> rate_of (RIFF_tag @ RIFF_tag) = Inl (WaveError ''not a WAVE file'')"
  by (simp add: overflow_run rate_of_def params_of_def initfp_riff_riff)

theorem other_fields_kept_counterexample:
  "files (fst (change_sample_rate example_world ''/home/folder/input.wav'' 3000000000))
     ''/home/folder/input--sample_rate_changed__48000_to_3000000000.wav''
     = Some (RIFF_tag @ RIFF_tag)
   \<and> other_fields_of (RIFF_tag @ RIFF_tag) = Inl (WaveError ''not a WAVE file'')
   \<and> other_fields_of example_wav = Inr (1, 2, 1000)"
  by (simp add: overflow_run other_fields_of_def params_of_def initfp_riff_riff ex_init
      ex_params[simplified])

section \<open>Claim C4: an input path without a directory part\<close>

lemma run_no_dir:
  assumes "files w p = Some bs" "initfp bs = Inr rd" "\<forall>c \<in> set p. \<not> is_sep c"
  shows "change_sample_rate w p new = (w, ''Error: '' @ none_plus_str)"
  by (simp add: change_sample_rate_def try_block_no_dir[OF assms])

text \<open>
  Claim C4. The claim promises \<^verbatim>\<open>input--sample_rate_changed__48000_to_50400.wav\<close> for
  the input \<^verbatim>\<open>input.wav\<close>. The code computes \<^verbatim>\<open>path + output_wav_name + '.wav'\<close> with
  \<^verbatim>\<open>path = None\<close> there: the \<^verbatim>\<open>TypeError\<close> is caught, its message printed, and no file
  is written.
\<close>

theorem input_wav_not_written:
  "change_sample_rate example_world ''input.wav'' 50400 =
     (example_world, ''Error: '' @ none_plus_str)"
proof -
  have f: "files example_world ''input.wav'' = Some example_wav"
    by (simp add: example_world_def)
  have n: "\<forall>c \<in> set ''input.wav''. \<not> is_sep c"
    by (simp add: is_sep_def slash_def backslash_def)
  from f ex_init n show ?thesis by (rule run_no_dir)
qed

section \<open>Claim C5: the exit status after an error\<close>

lemma py_int_50400: "py_int ''50400'' = Some 50400"
  by (simp add: py_int_def strip_def is_space_def is_digit_def digit_val_def max_str_digits_def)

lemma main_returns_zero:
  assumes "length argv = 3" "py_int (argv ! 2) = Some new"
  shows "snd (snd (main w argv)) = 0"
  using assms by (simp add: main_def split: prod.splits)

lemma initfp_notes:
  "initfp [0x6E, 0x6F, 0x74, 0x65, 0x73, 0x0A, 0x31, 0x32, 0x33] =
     Inl (WaveError ''file does not start with RIFF id'')"
  by (simp add: initfp_def RIFF_tag_def Let_def)

text \<open>
  Claim C5. An error inside \<^verbatim>\<open>change_sample_rate\<close> is caught and printed as
  \<^verbatim>\<open>Error: <message>\<close>, but the function then returns and so does \<^verbatim>\<open>main\<close>: the exit
  status is 0, for a missing input file as for a file that is no WAV file. Only the two
  argument errors of \<^verbatim>\<open>main\<close> end in \<^verbatim>\<open>sys.exit(1)\<close>.
\<close>

theorem error_exit_status_zero:
  "main example_world [''change_tempo_and_pitch_via_sample_rate.py'',
      ''/home/folder/missing.wav'', ''50400''] =
     (example_world, ''Error: '' @ str_exn (FileNotFoundError ''/home/folder/missing.wav''), 0)
   \<and> main example_world [''change_tempo_and_pitch_via_sample_rate.py'',
      ''/home/folder/notes.wav'', ''50400''] =
     (example_world, ''Error: file does not start with RIFF id'', 0)
   \<and> main example_world [''change_tempo_and_pitch_via_sample_rate.py'',
      ''/home/folder/input.wav'', ''fast''] =
     (example_world, ''Error: The sample rate must be an integer.'', 1)"
proof -
  have m: "files example_world ''/home/folder/missing.wav'' = None"
    by (simp add: example_world_def)
  have n: "files example_world ''/home/folder/notes.wav'' =
      Some [0x6E, 0x6F, 0x74, 0x65, 0x73, 0x0A, 0x31, 0x32, 0x33]"
    by (simp add: example_world_def)
  have f: "py_int ''fast'' = None"
    by (simp add: py_int_def strip_def is_space_def is_digit_def digit_val_def max_str_digits_def)
  show ?thesis
    by (simp add: main_def py_int_50400 f change_sample_rate_def try_block_missing[OF m]
        try_block_unreadable[OF n initfp_notes])
qed

section \<open>Claim C6: a new rate that is not positive\<close>

lemma with_out_wav_nonpos:
  assumes "new \<le> 0"
  shows "\<exists>e. with_out_wav rd (nc, sw, new, nf, ct, cn) = (Some e, [])"
  using assms
  by (auto simp: with_out_wav_def out_body_def setparams_def new_writer_def close_writer_def
      ensure_header_written_def Let_def)

lemma with_out_wav_nonpos_rate:
  assumes "new \<le> 0" "0 < n" "0 < s" "s \<le> 4"
  shows "with_out_wav rd (int n, int s, new, nf, ct, cn) =
           (Some (WaveError ''sampling rate not specified''), [])"
  using assms
  by (simp add: with_out_wav_def out_body_def setparams_def new_writer_def close_writer_def
      ensure_header_written_def Let_def)

lemma try_block_nonpos:
  assumes "new \<le> 0"
  shows "\<exists>e w'. try_block w p new = (w', Inl e)
            \<and> (\<forall>q. files w' q = files w q \<or> files w' q = Some [])"
proof (cases "wave_open_rb w p")
  case (Inl e)
  then show ?thesis by (simp add: try_block_def)
next
  case (Inr rd)
  let ?old = "int (f_framerate (rd_fmt rd))"
  obtain path name where gp: "get_path_name p = (path, name)" by (cases "get_path_name p")
  show ?thesis
  proof (cases path)
    case None
    with Inr gp show ?thesis by (simp add: try_block_def getparams_def)
  next
    case (Some dir)
    let ?out = "dir @ name @ suffix_name ?old new @ ''.wav''"
    show ?thesis
    proof (cases "open_wb w ?out")
      case (Inl e)
      with Inr gp Some show ?thesis by (simp add: try_block_def getparams_def)
    next
      case w1: (Inr w1)
      then have w1_eq: "w1 = w\<lparr>files := (files w)(?out \<mapsto> [])\<rparr>"
        by (simp add: open_wb_def split: if_splits)
      from with_out_wav_nonpos[OF assms] obtain e where
        wo: "with_out_wav rd (int (f_nchannels (rd_fmt rd)), int (f_sampwidth (rd_fmt rd)), new,
               int (rd_nframes rd), ''NONE'', ''not compressed'') = (Some e, [])"
        by blast
      have "try_block w p new = (w1\<lparr>files := (files w1)(?out \<mapsto> [])\<rparr>, Inl e)"
        using Inr gp Some w1 wo by (simp add: try_block_def getparams_def)
      then show ?thesis using w1_eq by auto
    qed
  qed
qed

lemma run_nonpos_dir:
  assumes new: "new \<le> 0"
    and f: "files w (dir @ rest) = Some bs" and i: "initfp bs = Inr rd"
    and sw: "f_sampwidth (rd_fmt rd) \<le> 4"
    and d: "dir \<noteq> []" "is_sep (last dir)" "\<forall>c \<in> set rest. \<not> is_sep c"
    and wr: "output_path dir rest (int (f_framerate (rd_fmt rd))) new \<notin> write_denied w"
  shows "change_sample_rate w (dir @ rest) new =
     (w\<lparr>files := (files w)(output_path dir rest (int (f_framerate (rd_fmt rd))) new \<mapsto> [])\<rparr>,
      ''Error: sampling rate not specified'')"
proof -
  have g: "getparams rd = (int (f_nchannels (rd_fmt rd)), int (f_sampwidth (rd_fmt rd)),
      int (f_framerate (rd_fmt rd)), int (rd_nframes rd), ''NONE'', ''not compressed'')"
    by (simp add: getparams_def)
  from initfp_pos[OF i] have pos: "0 < f_nchannels (rd_fmt rd)" "0 < f_sampwidth (rd_fmt rd)"
    by simp_all
  note wo = with_out_wav_nonpos_rate[OF new pos sw]
  show ?thesis
    by (simp add: change_sample_rate_def try_block_dir[OF f i g d wr wo])
qed

text \<open>
  Claim C6, as amended. The script does not look at the sign of the new rate; the rate is
  refused by the library when the output file is already open. For a new rate that is zero
  or negative the run always ends in the error branch and no header is written: every file
  is as before or empty. The error reported is the library's rate error,
  \<^verbatim>\<open>sampling rate not specified\<close>, when the run gets as far as the rate: the input is
  readable, with a sample width of at most 4 bytes and a directory part, and the output
  can be opened, which is then left empty. Otherwise the error that comes first is
  reported.
\<close>

theorem nonpositive_rate_rejected:
  assumes "new \<le> 0"
  shows "(\<exists>e. snd (change_sample_rate w p new) = ''Error: '' @ str_exn e)
     \<and> (\<forall>q. files (fst (change_sample_rate w p new)) q = files w q
            \<or> files (fst (change_sample_rate w p new)) q = Some [])
     \<and> (p = dir @ rest \<and> files w p = Some bs \<and> initfp bs = Inr rd
          \<and> f_sampwidth (rd_fmt rd) \<le> 4
          \<and> dir \<noteq> [] \<and> is_sep (last dir) \<and> (\<forall>c \<in> set rest. \<not> is_sep c)
          \<and> output_path dir rest (int (f_framerate (rd_fmt rd))) new \<notin> write_denied w
        \<longrightarrow> change_sample_rate w p new =
              (w\<lparr>files := (files w)
                   (output_path dir rest (int (f_framerate (rd_fmt rd))) new \<mapsto> [])\<rparr>,
               ''Error: sampling rate not specified''))"
proof (intro conjI impI)
  from try_block_nonpos[OF assms] obtain e w' where
    t: "try_block w p new = (w', Inl e)"
    and u: "\<forall>q. files w' q = files w q \<or> files w' q = Some []" by blast
  from t show "\<exists>e. snd (change_sample_rate w p new) = ''Error: '' @ str_exn e"
    by (auto simp: change_sample_rate_def)
  from t u show "\<forall>q. files (fst (change_sample_rate w p new)) q = files w q
            \<or> files (fst (change_sample_rate w p new)) q = Some []"
    by (simp add: change_sample_rate_def)
next
  assume h: "p = dir @ rest \<and> files w p = Some bs \<and> initfp bs = Inr rd
          \<and> f_sampwidth (rd_fmt rd) \<le> 4
          \<and> dir \<noteq> [] \<and> is_sep (last dir) \<and> (\<forall>c \<in> set rest. \<not> is_sep c)
          \<and> output_path dir rest (int (f_framerate (rd_fmt rd))) new \<notin> write_denied w"
  then have p: "p = dir @ rest" by simp
  from h have f: "files w (dir @ rest) = Some bs" and i: "initfp bs = Inr rd"
    and sw: "f_sampwidth (rd_fmt rd) \<le> 4"
    and d: "dir \<noteq> []" "is_sep (last dir)" "\<forall>c \<in> set rest. \<not> is_sep c"
    and wr: "output_path dir rest (int (f_framerate (rd_fmt rd))) new \<notin> write_denied w"
    by auto
  show "change_sample_rate w p new =
              (w\<lparr>files := (files w)
                   (output_path dir rest (int (f_framerate (rd_fmt rd))) new \<mapsto> [])\<rparr>,
               ''Error: sampling rate not specified'')"
    unfolding p by (rule run_nonpos_dir[OF assms f i sw d wr])
qed

lemma ex_out_zero:
  "output_path ''/home/folder/'' ''input.wav'' 48000 0 =
     ''/home/folder/input--sample_rate_changed__48000_to_0.wav''"
  by (simp add: output_path_def suffix_name_def str_int_def str_nat.simps digit_char_def)

theorem nonpositive_rate_rejected_witness:
  "change_sample_rate example_world ''/home/folder/input.wav'' 0 =
     (example_world\<lparr>files := (files example_world)
        (''/home/folder/input--sample_rate_changed__48000_to_0.wav'' \<mapsto> [])\<rparr>,
      ''Error: sampling rate not specified'')"
proof -
  have z: "(0::int) \<le> 0" by simp
  have h: "''/home/folder/input.wav'' = ''/home/folder/'' @ ''input.wav''
      \<and> files example_world ''/home/folder/input.wav'' = Some example_wav
      \<and> initfp example_wav = Inr (canon_reader 1 2 48000 2000 example_payload)
      \<and> f_sampwidth (rd_fmt (canon_reader 1 2 48000 2000 example_payload)) \<le> 4
      \<and> ''/home/folder/'' \<noteq> [] \<and> is_sep (last ''/home/folder/'')
      \<and> (\<forall>c \<in> set ''input.wav''. \<not> is_sep c)
      \<and> output_path ''/home/folder/'' ''input.wav''
            (int (f_framerate (rd_fmt (canon_reader 1 2 48000 2000 example_payload)))) 0
          \<notin> write_denied example_world"
    using ex_file ex_init ex_dir by (simp add: ex_wr canon_reader_def)
  from nonpositive_rate_rejected[OF z, THEN conjunct2, THEN conjunct2, THEN mp, OF h]
  show ?thesis by (simp add: canon_reader_def ex_out_zero)
qed

text \<open>
  With a rate of zero or below, a missing input file and a file that is no WAV file are
  reported with their own errors, not with a rate error.
\<close>

theorem nonpositive_rate_counterexample:
  "change_sample_rate example_world ''/home/folder/missing.wav'' 0 =
     (example_world, ''Error: '' @ str_exn (FileNotFoundError ''/home/folder/missing.wav''))
   \<and> change_sample_rate example_world ''/home/folder/notes.wav'' (- 5) =
     (example_world, ''Error: file does not start with RIFF id'')"
proof -
  have m: "files example_world ''/home/folder/missing.wav'' = None"
    by (simp add: example_world_def)
  have n: "files example_world ''/home/folder/notes.wav'' =
      Some [0x6E, 0x6F, 0x74, 0x65, 0x73, 0x0A, 0x31, 0x32, 0x33]"
    by (simp add: example_world_def)
  show ?thesis
    by (simp add: change_sample_rate_def try_block_missing[OF m]
        try_block_unreadable[OF n initfp_notes])
qed

section \<open>Claim C7: a file that does not start with RIFF\<close>

lemma initfp_not_riff:
  assumes "take 4 bs \<noteq> RIFF_tag"
  shows "initfp bs = Inl (if length bs < 8 then EOFError
                          else WaveError ''file does not start with RIFF id'')"
  using assms by (auto simp: initfp_def Let_def)

text \<open>
  Claim C7. When the first four bytes of the input file are not \<^verbatim>\<open>RIFF\<close> the run is
  rejected and the file system is left as it was, so no output file is created. The
  library's error is \<^verbatim>\<open>file does not start with RIFF id\<close>; for a file of fewer than 8
  bytes it is \<^verbatim>\<open>EOFError\<close>, whose message is empty.
\<close>

theorem not_riff_rejected:
  assumes "files w p = Some bs" "take 4 bs \<noteq> RIFF_tag"
  shows "change_sample_rate w p new =
     (w, ''Error: '' @ (if length bs < 8 then [] else ''file does not start with RIFF id''))"
  by (simp add: change_sample_rate_def
      try_block_unreadable[OF assms(1) initfp_not_riff[OF assms(2)]])

theorem not_riff_rejected_witness:
  "change_sample_rate example_world ''/home/folder/notes.wav'' 50400 =
     (example_world, ''Error: file does not start with RIFF id'')"
proof -
  have n: "files example_world ''/home/folder/notes.wav'' =
      Some [0x6E, 0x6F, 0x74, 0x65, 0x73, 0x0A, 0x31, 0x32, 0x33]"
    by (simp add: example_world_def)
  have t: "take 4 [0x6E, 0x6F, 0x74, 0x65, 0x73, 0x0A, 0x31, 0x32, 0x33 :: byte] \<noteq> RIFF_tag"
    by (simp add: RIFF_tag_def)
  from not_riff_rejected[OF n t, of 50400] show ?thesis by simp
qed

section \<open>Claim C8: an input cut short\<close>

lemma patch_bytes:
  "overwrite (overwrite (wav_header n s r dlen @ data) 4 (le32 (36 + length data))) 40
     (le32 (length data)) = wav_bytes n s r (length data) data"
  by (simp add: overwrite_def wav_bytes_def wav_header_def length_tags length_le32 length_le16)

lemma write_header_nonzero:
  assumes "36 + dlen < 4294967296" "n * r * s < 4294967296" "n * s < 65536"
    "0 < n" "0 < s" "s \<le> 4" "dlen = nf * (n * s)" "nf \<noteq> 0"
  shows "write_header (set_writer n s r nf) il =
     (None, (set_writer n s r nf)\<lparr>wr_datalength := int dlen,
        wr_headerwritten := True, wr_file := wav_header n s r dlen\<rparr>)"
proof -
  have dl: "int nf * int n * int s = int dlen"
    using assms(7) by (simp add: mult.assoc)
  have sl: "struct_L (int dlen) = Inr (le32 dlen)"
    using assms(1) by (simp add: struct_L_def in_L_def)
  note ph = pack_header_ok[OF assms(1-6)]
  show ?thesis
    using assms(8)
    by (simp add: write_header_def set_writer_def Let_def dl sl ph wav_header_def)
qed

lemma writeframes_cut:
  assumes "36 + dlen < 4294967296" "n * r * s < 4294967296" "n * s < 65536"
    "0 < n" "0 < s" "s \<le> 4" "dlen = nf * (n * s)" "0 < r" "length data < dlen"
  shows "writeframes (set_writer n s r nf) data = (None, done_writer n s r nf data)"
proof -
  have nf: "nf \<noteq> 0"
  proof
    assume "nf = 0"
    with assms(7) have "dlen = 0" by simp
    with assms(9) show False by simp
  qed
  have e: "ensure_header_written (set_writer n s r nf) (int (length data)) =
     (None, (set_writer n s r nf)\<lparr>wr_datalength := int dlen,
        wr_headerwritten := True, wr_file := wav_header n s r dlen\<rparr>)"
    using assms(4,5,8) write_header_nonzero[OF assms(1-7) nf]
    by (simp add: ensure_header_written_def set_writer_def)
  have s1: "struct_L (36 + int (length data)) = Inr (le32 (36 + length data))"
    using assms(1,9) by (simp add: struct_L_def in_L_def nat_36 del: nat_add_distrib)
  have s2: "struct_L (int (length data)) = Inr (le32 (length data))"
    using assms(1,9) by (simp add: struct_L_def in_L_def)
  have ne: "int dlen \<noteq> int (length data)" using assms(9) by simp
  show ?thesis
    unfolding writeframes_def writeframesraw_def e
    using assms(9)
    by (simp add: set_writer_def done_writer_def patchheader_def s1 s2 ne patch_bytes Let_def
        wav_bytes_def)
qed

lemma with_out_wav_cut:
  assumes "36 + dlen < 4294967296" "n * r * s < 4294967296" "n * s < 65536"
    "0 < n" "0 < s" "s \<le> 4" "dlen = nf * (n * s)" "0 < r" "length data < dlen"
    "readframes rd (int nf) = data"
  shows "with_out_wav rd (int n, int s, int r, int nf, ''NONE'', cn)
           = (None, wav_bytes n s r (length data) data)"
proof -
  have b: "out_body new_writer rd (int n, int s, int r, int nf, ''NONE'', cn)
      = (None, done_writer n s r nf data)"
    using assms(10) setparams_ok[OF assms(4,5,6,8)] writeframes_cut[OF assms(1-9)]
    by (simp add: out_body_def)
  show ?thesis
    unfolding with_out_wav_def b
    by (simp add: close_done, simp add: done_writer_def)
qed

lemma truncated_try_block:
  assumes f: "files w (dir @ rest) = Some (wav_bytes n s old dlen payload)"
    and dlen: "dlen = nf * (n * s)" and cut: "length payload < dlen"
    and d: "dir \<noteq> []" "is_sep (last dir)" "\<forall>c \<in> set rest. \<not> is_sep c"
    and wr: "output_path dir rest (int old) (int r) \<notin> write_denied w"
    and rep: "0 < n" "0 < s" "s \<le> 4" "0 < r" "old < 4294967296"
      "n * r * s < 4294967296" "n * s < 65536" "36 + dlen < 4294967296"
  shows "try_block w (dir @ rest) (int r) =
     (w\<lparr>files := (files w)(output_path dir rest (int old) (int r)
            \<mapsto> wav_bytes n s r (length payload) payload)\<rparr>,
      Inr (int old, output_path dir rest (int old) (int r)))"
proof -
  let ?rd = "canon_reader n s old dlen payload"
  have le: "length payload \<le> dlen" using cut by simp
  have i: "initfp (wav_bytes n s old dlen payload) = Inr ?rd"
    using rep(1) fits_channels[OF rep(7) rep(2)] rep(5) rep(2) rep(3) le rep(8)
    by (rule initfp_canon)
  have dv: "dlen div (n * s) = nf" using dlen rep(1,2) by simp
  have g: "getparams ?rd = (int n, int s, int old, int nf, ''NONE'', ''not compressed'')"
    by (simp add: getparams_def canon_reader_def dv)
  have rf: "readframes ?rd (int nf) = payload"
    using cut dlen by (intro readframes_canon) simp_all
  note wo = with_out_wav_cut[OF rep(8) rep(6) rep(7) rep(1) rep(2) rep(3) dlen rep(4) cut rf,
      of "''not compressed''"]
  show ?thesis
    by (simp add: try_block_dir[OF f i g d wr wo])
qed

text \<open>
  Claim C8, as amended. An input whose data chunk declares more bytes than the file holds
  is not rejected. For a canonical file that declares a whole number of frames and holds
  fewer bytes, under the conditions of C1 on path, rate and header fields, the run
  succeeds: the output file holds the bytes that were there, under a header whose sizes
  are corrected to them.
\<close>

theorem truncated_input_copied:
  assumes "files w (dir @ rest) = Some (wav_bytes n s old dlen payload)"
    "dlen = nf * (n * s)" "length payload < dlen"
    "dir \<noteq> []" "is_sep (last dir)" "\<forall>c \<in> set rest. \<not> is_sep c"
    "output_path dir rest (int old) (int r) \<notin> write_denied w"
    "0 < n" "0 < s" "s \<le> 4" "0 < r" "old < 4294967296"
    "n * r * s < 4294967296" "n * s < 65536" "36 + dlen < 4294967296"
  shows "change_sample_rate w (dir @ rest) (int r) =
     (w\<lparr>files := (files w)(output_path dir rest (int old) (int r)
            \<mapsto> wav_bytes n s r (length payload) payload)\<rparr>,
      ''Sample rate changed from '' @ str_int (int old) @ '' Hz to '' @ str_int (int r)
        @ '' Hz and saved as '' @ output_path dir rest (int old) (int r))"
proof -
  have "try_block w (dir @ rest) (int r) =
     (w\<lparr>files := (files w)(output_path dir rest (int old) (int r)
            \<mapsto> wav_bytes n s r (length payload) payload)\<rparr>,
      Inr (int old, output_path dir rest (int old) (int r)))"
    using assms by (rule truncated_try_block)
  then show ?thesis by (simp add: change_sample_rate_def)
qed

lemma cut_file:
  "files example_world (''/home/folder/'' @ ''cut.wav'') =
     Some (wav_bytes 1 2 48000 2000 (replicate 1000 0))"
  by (simp add: example_world_def cut_wav_def)

lemma cut_dir: "\<forall>c \<in> set ''cut.wav''. \<not> is_sep c"
  by (simp add: is_sep_def slash_def backslash_def)

lemma cut_arith:
  "(2000::nat) = 1000 * (1 * 2)" "length (replicate 1000 (0::byte)) < 2000"
  by simp_all

lemma cut_rep:
  "0 < (1::nat)" "0 < (2::nat)" "(2::nat) \<le> 4" "0 < (50400::nat)" "(48000::nat) < 4294967296"
  "(1::nat) * 50400 * 2 < 4294967296" "(1::nat) * 2 < 65536" "36 + (2000::nat) < 4294967296"
  by simp_all

lemma cut_out:
  "output_path ''/home/folder/'' ''cut.wav'' 48000 50400 =
     ''/home/folder/cut--sample_rate_changed__48000_to_50400.wav''"
  by (simp add: output_path_def suffix_name_def str_int_def str_nat.simps digit_char_def)

lemma str_int_examples: "str_int 48000 = ''48000''" "str_int 50400 = ''50400''"
  by (simp_all add: str_int_def str_nat.simps digit_char_def)

theorem truncated_input_copied_witness:
  "files (fst (change_sample_rate example_world ''/home/folder/cut.wav'' 50400))
     ''/home/folder/cut--sample_rate_changed__48000_to_50400.wav''
     = Some (wav_bytes 1 2 50400 1000 (replicate 1000 0))"
  using truncated_input_copied[OF cut_file cut_arith ex_dir(1,2) cut_dir ex_wr cut_rep]
  by (simp add: cut_out)

theorem truncated_input_counterexample:
  "change_sample_rate example_world ''/home/folder/cut.wav'' 50400 =
     (example_world\<lparr>files := (files example_world)
        (''/home/folder/cut--sample_rate_changed__48000_to_50400.wav''
           \<mapsto> wav_bytes 1 2 50400 1000 (replicate 1000 0))\<rparr>,
      ''Sample rate changed from 48000 Hz to 50400 Hz and saved as /home/folder/cut--sample_rate_changed__48000_to_50400.wav'')"
  using truncated_try_block[OF cut_file cut_arith ex_dir(1,2) cut_dir ex_wr cut_rep]
  by (simp add: change_sample_rate_def cut_out str_int_examples)

end
